theory Spec2Isabelle
  imports
    Complex_Main
    "HOL-Library.Multiset"
    "HOL-Library.Char_ord"
    "HOL-Library.List_Lexorder"
    "HOL-Library.Product_Lexorder"
begin

section \<open>Python values and errors\<close>

text \<open>
  The exceptions the modelled code can raise.  A function that can raise returns
  \<open>py_error + 'a\<close>, with \<open>Inl\<close> for the exception.
\<close>

datatype py_error = IndexError | KeyError string | AttributeError | ValueError
  | ZeroDivisionError | OverflowError

text \<open>
  A Python string is the list of its characters, and a \<^typ>\<open>char\<close> is a character
  by its code point, which the type keeps below 256.

  Python's \<open>str\<close> of an integer; the decimal digits are looked up in a table.
\<close>

definition digit_char :: "nat \<Rightarrow> char" where
  "digit_char d = ''0123456789'' ! d"

fun str_nat :: "nat \<Rightarrow> string" where
  "str_nat n = (if n < 10 then [digit_char n]
                else str_nat (n div 10) @ [digit_char (n mod 10)])"

declare str_nat.simps [simp del]

definition str_int :: "int \<Rightarrow> string" where
  "str_int i = (if i < 0 then CHR ''-'' # str_nat (nat (- i)) else str_nat (nat i))"

text \<open>
  \<open>str.strip()\<close>: leading and trailing whitespace is removed.  The whitespace
  characters are those Python's \<open>str.isspace\<close> accepts: tab, line feed, vertical
  tab, form feed, carriage return, the four separators 28 to 31, space, next line
  (133) and the no-break space (160).
\<close>

definition is_space :: "char \<Rightarrow> bool" where
  "is_space c = (of_char c \<in> set [9, 10, 11, 12, 13, 28, 29, 30, 31, 32, 133, 160 :: nat])"

definition strip :: "string \<Rightarrow> string" where
  "strip s = rev (dropWhile is_space (rev (dropWhile is_space s)))"

text \<open>
  \<open>str.lower()\<close>: the capital letters are A to Z and the accented capitals 192 to
  222 without the multiplication sign 215; the small letter of each is 32 further.
\<close>

definition lower_char :: "char \<Rightarrow> char" where
  "lower_char c = (let n = (of_char c :: nat) in
                   if (65 \<le> n \<and> n \<le> 90) \<or> (192 \<le> n \<and> n \<le> 222 \<and> n \<noteq> 215)
                   then char_of (n + 32) else c)"

definition lower :: "string \<Rightarrow> string" where
  "lower s = map lower_char s"

section \<open>Roster\<close>

text \<open>
  A row of the roster worksheet after the renaming of its four columns and the
  numeric coercion of the jersey number (a number that does not parse is missing).
\<close>

record sheet_row =
  src_first_name :: string
  src_last_name :: string
  src_number :: "int option"
  src_positions :: string

record player =
  player_key :: string
  first_name :: string
  last_name :: string
  number :: "int option"
  positions :: string

text \<open>
  \<open>read_roster_df\<close> adds the column \<open>player_key\<close>, the f-string
  \<open>#{number} {first_name} {last_name}\<close>; a missing number prints as \<open><NA>\<close>.
\<close>

definition player_key_of :: "int option \<Rightarrow> string \<Rightarrow> string \<Rightarrow> string" where
  "player_key_of n f l =
     ''#'' @ (case n of None \<Rightarrow> ''<NA>'' | Some i \<Rightarrow> str_int i) @ '' '' @ f @ '' '' @ l"

definition read_roster_df :: "sheet_row list \<Rightarrow> player list" where
  "read_roster_df rs =
     map (\<lambda>r. \<lparr> player_key = player_key_of (src_number r) (src_first_name r) (src_last_name r),
                first_name = src_first_name r,
                last_name = src_last_name r,
                number = src_number r,
                positions = src_positions r \<rparr>) rs"

text \<open>
  \<open>roster.loc[roster["player_key"] == k].iloc[0]\<close>: the first roster row with
  that key; \<open>iloc[0]\<close> raises IndexError when no row has it.
\<close>

definition lookup_player :: "player list \<Rightarrow> string \<Rightarrow> py_error + player" where
  "lookup_player roster k =
     (case filter (\<lambda>r. player_key r = k) roster of
        [] \<Rightarrow> Inl IndexError
      | r # _ \<Rightarrow> Inr r)"

section \<open>Events\<close>

text \<open>
  One committed row of the event log.  A key that a row's dict does not have, or
  has with the value None, is \<open>None\<close>: in the log's DataFrame both are a missing
  value.  The fields \<open>card_field\<close> and \<open>notes_field\<close> are the columns
  \<open>card\<close> and \<open>notes\<close>.
\<close>

record event = player +
  timestamp :: string
  sport :: string
  side :: string
  notes_field :: string
  stat_type :: string
  outcome :: "string option"
  yards :: "int option"
  touchdown :: "int option"
  on_target :: "int option"
  goal :: "int option"
  card_field :: "string option"
  penalty_minutes :: "rat option"
  minutes :: "rat option"

text \<open>
  \<open>base_row\<close>, the dict every row of one submission starts from.  It has no
  \<open>stat_type\<close> key; every row built from it sets one, so the field is empty here.
\<close>

definition base_row :: "string \<Rightarrow> string \<Rightarrow> string \<Rightarrow> player \<Rightarrow> string \<Rightarrow> string \<Rightarrow> event" where
  "base_row now sport_name pk pr sd nt =
     \<lparr> player_key = pk,
       first_name = first_name pr,
       last_name = last_name pr,
       number = number pr,
       positions = positions pr,
       timestamp = now,
       sport = sport_name,
       side = sd,
       notes_field = strip nt,
       stat_type = [],
       outcome = None, yards = None, touchdown = None, on_target = None, goal = None,
       card_field = None, penalty_minutes = None, minutes = None \<rparr>"

text \<open>A paired row takes the identity columns of the paired player's roster row.\<close>

definition with_player :: "player \<Rightarrow> event \<Rightarrow> event" where
  "with_player p e =
     e\<lparr> player_key := player_key p, first_name := first_name p, last_name := last_name p,
        number := number p, positions := positions p \<rparr>"

section \<open>Football: the stat form\<close>

text \<open>
  The values of the widgets of \<open>FootballSpec.build_form\<close>, named by their
  Streamlit keys, with the submit button and the clock read for the timestamp.
\<close>

record fb_form =
  fb_player_select :: string
  fb_side_select :: string
  fb_stat_off :: string
  fb_stat_def :: string
  fb_yards :: int
  fb_td :: bool
  fb_pass_outcome :: string
  fb_receiver :: string
  fb_pair_reception :: bool
  fb_fg_outcome :: string
  fb_notes :: string
  fb_submitted :: bool
  fb_now :: string

definition fb_sides :: "string list" where
  "fb_sides = [''Offense'', ''Defense'']"

definition fb_off_options :: "string list" where
  "fb_off_options = [''Reception'', ''Run'', ''Fumble'', ''Pass'', ''Field Goal'', ''Punt'']"

definition fb_def_options :: "string list" where
  "fb_def_options = [''Forced Fumble'', ''Sack'', ''Interception'', ''Tackle'', ''Return'']"

text \<open>The receiver list excludes the passer.\<close>

definition receiver_options :: "player list \<Rightarrow> string \<Rightarrow> string list" where
  "receiver_options roster pk = filter (\<lambda>k. k \<noteq> pk) (map player_key roster)"

text \<open>A select box returns one of its options; the option list is never empty.\<close>

definition fb_form_ok :: "player list \<Rightarrow> fb_form \<Rightarrow> bool" where
  "fb_form_ok roster w =
     (fb_player_select w \<in> set (map player_key roster) \<and>
      fb_side_select w \<in> set fb_sides \<and>
      fb_stat_off w \<in> set fb_off_options \<and>
      fb_stat_def w \<in> set fb_def_options \<and>
      fb_pass_outcome w \<in> set [''Complete'', ''Incomplete''] \<and>
      fb_fg_outcome w \<in> set [''Made'', ''Miss''] \<and>
      fb_receiver w \<in> set (if receiver_options roster (fb_player_select w) = []
                             then [''No eligible receivers'']
                             else receiver_options roster (fb_player_select w)))"

definition td_val :: "bool \<Rightarrow> int" where
  "td_val td_flag = (if td_flag then 1 else 0)"

text \<open>
  The locals \<open>stat_type\<close>, \<open>outcome\<close>, \<open>yards\<close> and \<open>touchdown_val\<close> as the
  body of the form leaves them.
\<close>

definition fb_locals :: "fb_form \<Rightarrow> string \<times> string option \<times> int option \<times> int" where
  "fb_locals w =
     (if fb_side_select w = ''Offense'' then
        (let st = fb_stat_off w in
         if st \<in> set [''Reception'', ''Run'', ''Punt''] then
           (st, None, Some (fb_yards w),
            if st \<in> set [''Reception'', ''Run''] then td_val (fb_td w) else 0)
         else if st = ''Pass'' then
           (if fb_pass_outcome w = ''Complete''
            then (st, Some (fb_pass_outcome w), Some (fb_yards w), td_val (fb_td w))
            else (st, Some (fb_pass_outcome w), None, 0))
         else if st = ''Field Goal'' then
           (st, Some (fb_fg_outcome w), Some (fb_yards w), 0)
         else (st, None, None, 0))
      else
        (let st = fb_stat_def w in
         if st = ''Return'' then (st, None, Some (fb_yards w), td_val (fb_td w))
         else if st = ''Interception'' then (st, None, None, td_val (fb_td w))
         else (st, None, None, 0)))"

definition fb_stat_type :: "fb_form \<Rightarrow> string" where
  "fb_stat_type w = fst (fb_locals w)"

text \<open>
  \<open>new_rows\<close> of \<open>FootballSpec.build_form\<close>.  The passer's lookup is outside
  the \<open>try\<close> and raises; the receiver's lookup is inside it, and a receiver who is
  not in the roster only loses the paired row.
\<close>

definition FootballSpec_build_form :: "player list \<Rightarrow> fb_form \<Rightarrow> py_error + event list" where
  "FootballSpec_build_form roster w =
     (case fb_locals w of (st, outc, yds, td) \<Rightarrow>
      if \<not> fb_submitted w then Inr []
      else
        (case lookup_player roster (fb_player_select w) of
           Inl err \<Rightarrow> Inl err
         | Inr pr \<Rightarrow>
            (let base = base_row (fb_now w) ''Football'' (fb_player_select w) pr
                          (fb_side_select w) (fb_notes w);
                 row = base\<lparr> stat_type := st, outcome := outc, yards := yds,
                             touchdown := Some td \<rparr>;
                 paired =
                   (if fb_side_select w = ''Offense'' \<and> st = ''Pass'' \<and>
                       outc = Some ''Complete'' \<and> fb_pair_reception w
                    then (case lookup_player roster (fb_receiver w) of
                            Inl _ \<Rightarrow> []
                          | Inr rcv \<Rightarrow>
                              [(with_player rcv base)\<lparr> side := ''Offense'',
                                 stat_type := ''Reception'', outcome := None,
                                 yards := yds, touchdown := Some td \<rparr>])
                    else [])
             in Inr (row # paired))))"

section \<open>Soccer: the stat form\<close>

record sc_form =
  sc_player_select :: string
  sc_stat_type :: string
  sc_shot_on_target :: string
  sc_shot_goal :: bool
  sc_pass_outcome :: string
  sc_receiver :: string
  sc_pass_goal :: bool
  sc_foul_card :: string
  sc_notes :: string
  sc_submitted :: bool
  sc_now :: string

definition recv_options :: "player list \<Rightarrow> string \<Rightarrow> string list" where
  "recv_options roster pk = filter (\<lambda>k. k \<noteq> pk) (map player_key roster)"

text \<open>
  The local \<open>receiver_key\<close>: None unless the entry is a completed pass, then
  the value of the recipient select box.
\<close>

definition sc_receiver_key :: "sc_form \<Rightarrow> string option" where
  "sc_receiver_key w =
     (if sc_stat_type w = ''Pass'' \<and> sc_pass_outcome w = ''Complete''
      then Some (sc_receiver w) else None)"

definition sc_resulted_goal :: "sc_form \<Rightarrow> bool" where
  "sc_resulted_goal w =
     (sc_stat_type w = ''Pass'' \<and> sc_pass_outcome w = ''Complete'' \<and> sc_pass_goal w)"

text \<open>Python's truth value of \<open>receiver_key\<close>: None and the empty string are false.\<close>

definition truthy :: "string option \<Rightarrow> bool" where
  "truthy v = (case v of None \<Rightarrow> False | Some s \<Rightarrow> s \<noteq> [])"

definition SoccerSpec_build_form :: "player list \<Rightarrow> sc_form \<Rightarrow> py_error + event list" where
  "SoccerSpec_build_form roster w =
     (if \<not> sc_submitted w then Inr []
      else
        (case lookup_player roster (sc_player_select w) of
           Inl err \<Rightarrow> Inl err
         | Inr pr \<Rightarrow>
            (let base = base_row (sc_now w) ''Soccer'' (sc_player_select w) pr ''All''
                          (sc_notes w);
                 st = sc_stat_type w
             in
             if st = ''Shot'' then
               Inr [base\<lparr> stat_type := ''Shot'',
                          on_target := Some (if sc_shot_on_target w = ''Yes'' then 1 else 0),
                          goal := Some (if sc_shot_goal w then 1 else 0) \<rparr>]
             else if st = ''Pass'' then
               Inr (base\<lparr> stat_type := ''Pass'', outcome := Some (sc_pass_outcome w) \<rparr> #
                    (if sc_pass_outcome w = ''Complete'' \<and> truthy (sc_receiver_key w) \<and>
                        sc_receiver_key w \<noteq> Some (sc_player_select w)
                     then
                       (if sc_resulted_goal w then
                          base\<lparr> stat_type := ''Assist'' \<rparr> #
                          (case lookup_player roster (sc_receiver w) of
                             Inl _ \<Rightarrow> []
                           | Inr rcv \<Rightarrow>
                               [(with_player rcv base)\<lparr> stat_type := ''Shot'',
                                  on_target := Some 1, goal := Some 1 \<rparr>])
                        else [])
                     else []))
             else if st \<in> set [''Tackle'', ''Interception'', ''Save''] then
               Inr [base\<lparr> stat_type := st \<rparr>]
             else if st = ''Foul'' then
               Inr [base\<lparr> stat_type := ''Foul'', card_field := Some (sc_foul_card w) \<rparr>]
             else Inr [])))"

section \<open>Lacrosse: the stat form\<close>

record lc_form =
  lc_player_select :: string
  lc_stat_type :: string
  lc_assist :: string
  lc_sog :: string
  lc_faceoff :: string
  lc_penmin :: rat
  lc_minutes :: rat
  lc_notes :: string
  lc_submitted :: bool
  lc_now :: string

definition assist_opts :: "player list \<Rightarrow> string \<Rightarrow> string list" where
  "assist_opts roster pk = filter (\<lambda>k. k \<noteq> pk) (map player_key roster)"

definition LacrosseSpec_build_form :: "player list \<Rightarrow> lc_form \<Rightarrow> py_error + event list" where
  "LacrosseSpec_build_form roster w =
     (if \<not> lc_submitted w then Inr []
      else
        (case lookup_player roster (lc_player_select w) of
           Inl err \<Rightarrow> Inl err
         | Inr pr \<Rightarrow>
            (let base = base_row (lc_now w) ''Lacrosse'' (lc_player_select w) pr ''All''
                          (lc_notes w);
                 st = lc_stat_type w
             in
             if st = ''Goal'' then
               Inr (base\<lparr> stat_type := ''Goal'', goal := Some 1 \<rparr> #
                    base\<lparr> stat_type := ''Shot'', on_target := Some 1 \<rparr> #
                    (if lc_assist w \<noteq> [] \<and> lc_assist w \<noteq> ''None''
                     then (case lookup_player roster (lc_assist w) of
                             Inl _ \<Rightarrow> []
                           | Inr a \<Rightarrow> [(with_player a base)\<lparr> stat_type := ''Assist'' \<rparr>])
                     else []))
             else if st = ''Assist'' then Inr [base\<lparr> stat_type := ''Assist'' \<rparr>]
             else if st = ''Shot'' then
               Inr [base\<lparr> stat_type := ''Shot'',
                          on_target := Some (if lc_sog w = ''Yes'' then 1 else 0) \<rparr>]
             else if st = ''Ground Ball'' then Inr [base\<lparr> stat_type := ''Ground Ball'' \<rparr>]
             else if st = ''Faceoff'' then
               Inr [base\<lparr> stat_type := ''Faceoff'', outcome := Some (lc_faceoff w) \<rparr>]
             else if st \<in> set [''Takeaway'', ''Interception'', ''Turnover'', ''Save'',
                                ''Goal Allowed''] then
               Inr [base\<lparr> stat_type := st \<rparr>]
             else if st = ''Penalty'' then
               Inr [base\<lparr> stat_type := ''Penalty'', penalty_minutes := Some (lc_penmin w) \<rparr>]
             else if st = ''Goalie Minutes'' then
               Inr [base\<lparr> stat_type := ''Goalie Minutes'', minutes := Some (lc_minutes w) \<rparr>]
             else Inr [])))"

section \<open>The event log\<close>

text \<open>
  The log is a DataFrame: its columns and its rows.  A log has the columns of the
  event schema: the identity columns, \<open>sport\<close> and \<open>stat_type\<close> are keys of
  every row dict, columns of the empty log that creating a game stores, and fields
  of every \<^typ>\<open>event\<close>.  The attribute columns may be absent: which of them a
  log has is recorded in \<open>df_columns\<close>, and the aggregation functions read them as
  pandas does, \<open>df[c]\<close> raising KeyError and \<open>df.get(c, d)\<close> giving the scalar
  \<open>d\<close> for an absent column.

  The one frame of the program that is not a log is \<open>pd.DataFrame()\<close>, which the
  session holds before a game is created: it has no column and no row.  A frame is
  taken to be that frame or a log, so a frame without the column \<open>sport\<close> is the
  frame without columns.
\<close>

record logs_df =
  df_columns :: "string list"
  df_rows :: "event list"

text \<open>The columns of the empty log that creating a game stores.\<close>

definition new_game_columns :: "string list" where
  "new_game_columns =
     [''timestamp'', ''sport'', ''player_key'', ''first_name'', ''last_name'', ''number'',
      ''positions'', ''side'', ''stat_type'', ''outcome'', ''yards'', ''touchdown'', ''notes'']"

definition new_game_logs :: logs_df where
  "new_game_logs = \<lparr> df_columns = new_game_columns, df_rows = [] \<rparr>"

text \<open>\<open>pd.DataFrame()\<close>, the value of the session's log before a game is created.\<close>

definition empty_frame :: logs_df where
  "empty_frame = \<lparr> df_columns = [], df_rows = [] \<rparr>"

text \<open>
  The keys of a row dict: the nine keys of \<open>base_row\<close>, \<open>stat_type\<close>, and the
  attributes the row sets.  (The Football rows also hold \<open>outcome\<close> and \<open>yards\<close>
  when their value is None; both are columns of every log of a game.)
\<close>

definition row_keys :: "event \<Rightarrow> string list" where
  "row_keys e =
     [''timestamp'', ''sport'', ''player_key'', ''first_name'', ''last_name'', ''number'',
      ''positions'', ''side'', ''notes'', ''stat_type''] @
     (if outcome e \<noteq> None then [''outcome''] else []) @
     (if yards e \<noteq> None then [''yards''] else []) @
     (if touchdown e \<noteq> None then [''touchdown''] else []) @
     (if on_target e \<noteq> None then [''on_target''] else []) @
     (if goal e \<noteq> None then [''goal''] else []) @
     (if card_field e \<noteq> None then [''card''] else []) @
     (if penalty_minutes e \<noteq> None then [''penalty_minutes''] else []) @
     (if minutes e \<noteq> None then [''minutes''] else [])"

text \<open>
  \<open>pd.concat([logs, pd.DataFrame(new_rows)], ignore_index=True)\<close>: the rows are
  appended, and the columns are the union of the log's and the new rows' keys.
\<close>

definition concat_rows :: "logs_df \<Rightarrow> event list \<Rightarrow> logs_df" where
  "concat_rows logs new_rows =
     \<lparr> df_columns = df_columns logs @
         filter (\<lambda>c. c \<notin> set (df_columns logs)) (remdups (concat (map row_keys new_rows))),
       df_rows = df_rows logs @ new_rows \<rparr>"

section \<open>Aggregation: shared parts\<close>

text \<open>
  A cell of a totals table.  Python floats are modelled by rationals: the sums and
  quotients are exact, and \<open>round\<close> rounds the exact value, half to even.
\<close>

datatype cell = CNull | CStr string | CInt int | CFloat rat

type_synonym totals_row = "(string \<times> cell) list"

definition col :: "totals_row \<Rightarrow> string \<Rightarrow> cell option" where
  "col r c = map_of r c"

definition col_str :: "totals_row \<Rightarrow> string \<Rightarrow> string" where
  "col_str r c = (case map_of r c of Some (CStr s) \<Rightarrow> s | _ \<Rightarrow> [])"

text \<open>\<open>pd.to_numeric(..., errors="coerce").fillna(0)\<close> on a typed attribute.\<close>

definition fill0 :: "'a::zero option \<Rightarrow> 'a" where
  "fill0 v = (case v of None \<Rightarrow> 0 | Some x \<Rightarrow> x)"

text \<open>\<open>(mask).sum()\<close> and \<open>grp.loc[mask, column].sum()\<close>.\<close>

definition count_where :: "(event \<Rightarrow> bool) \<Rightarrow> event list \<Rightarrow> int" where
  "count_where P grp = int (length (filter P grp))"

definition sum_where :: "(event \<Rightarrow> 'a::comm_monoid_add) \<Rightarrow> (event \<Rightarrow> bool) \<Rightarrow> event list \<Rightarrow> 'a" where
  "sum_where f P grp = sum_list (map f (filter P grp))"

text \<open>
  \<open>df.groupby("player_key")\<close>: the groups in ascending order of the key, each
  group's rows in the order of the log.  Strings are ordered as Python orders them,
  character by character by code point, with a proper prefix first.
\<close>

definition group_rows :: "event list \<Rightarrow> string \<Rightarrow> event list" where
  "group_rows df k = filter (\<lambda>e. player_key e = k) df"

definition groupby_player_key :: "event list \<Rightarrow> (string \<times> event list) list" where
  "groupby_player_key df =
     map (\<lambda>k. (k, group_rows df k)) (sort (remdups (map player_key df)))"

text \<open>
  The five identity columns of a totals row, from the group's first row.  The
  number is kept as the roster's integer, or null; pandas holds it as a float once
  a row of the log lacks one.
\<close>

definition identity_cols :: "string \<Rightarrow> event \<Rightarrow> totals_row" where
  "identity_cols pk e0 =
     [(''player_key'', CStr pk),
      (''first_name'', CStr (first_name e0)),
      (''last_name'', CStr (last_name e0)),
      (''number'', (case number e0 of None \<Rightarrow> CNull | Some n \<Rightarrow> CInt n)),
      (''positions'', CStr (positions e0))]"

text \<open>
  \<open>sort_values(by=["last_name", "first_name"])\<close>: with two keys pandas sorts
  through \<open>numpy.lexsort\<close>, which is stable.
\<close>

definition sort_values_names :: "totals_row list \<Rightarrow> totals_row list" where
  "sort_values_names grouped =
     sort_key (\<lambda>r. (col_str r ''last_name'', col_str r ''first_name'')) grouped"

text \<open>The rows of a loop whose body can raise: the first exception ends it.\<close>

fun collect :: "('e + 'a) list \<Rightarrow> 'e + 'a list" where
  "collect [] = Inr []"
| "collect (x # xs) =
     (case x of
        Inl err \<Rightarrow> Inl err
      | Inr v \<Rightarrow> (case collect xs of Inl err \<Rightarrow> Inl err | Inr vs \<Rightarrow> Inr (v # vs)))"

definition bind_err :: "'e + 'a \<Rightarrow> ('a \<Rightarrow> 'e + 'b) \<Rightarrow> 'e + 'b" where
  "bind_err m f = (case m of Inl err \<Rightarrow> Inl err | Inr v \<Rightarrow> f v)"

text \<open>True division raises on a zero divisor.\<close>

definition py_truediv :: "rat \<Rightarrow> rat \<Rightarrow> py_error + rat" where
  "py_truediv a b = (if b = 0 then Inl ZeroDivisionError else Inr (a / b))"

text \<open>
  \<open>round(x, n)\<close>, half to even.  The floats of the totals are rationals here, so
  the quotient rounded is the exact one; Python rounds the binary float nearest to
  it, which can fall on the other side of a tie of the exact quotient.
\<close>

definition round_half_even :: "rat \<Rightarrow> int" where
  "round_half_even q =
     (let f = \<lfloor>q\<rfloor>; d = q - of_int f in
      if d < 1 / 2 then f else if 1 / 2 < d then f + 1 else if even f then f else f + 1)"

definition py_round :: "nat \<Rightarrow> rat \<Rightarrow> rat" where
  "py_round nd q = of_int (round_half_even (q * 10 ^ nd)) / 10 ^ nd"

text \<open>\<open>round(100 * a / b, 1) if b else 0.0\<close>\<close>

definition pct :: "int \<Rightarrow> int \<Rightarrow> py_error + rat" where
  "pct a b =
     (if b \<noteq> 0 then bind_err (py_truediv (100 * of_int a) (of_int b)) (\<lambda>q. Inr (py_round 1 q))
      else Inr 0)"

section \<open>Football totals\<close>

definition fb_stats :: "event list \<Rightarrow> totals_row" where
  "fb_stats grp =
     (let pass_df = filter (\<lambda>e. stat_type e = ''Pass'') grp;
          fg_df = filter (\<lambda>e. stat_type e = ''Field Goal'') grp;
          receiving_tds =
            count_where (\<lambda>e. stat_type e = ''Reception'' \<and> touchdown e = Some 1) grp;
          rushing_tds = count_where (\<lambda>e. stat_type e = ''Run'' \<and> touchdown e = Some 1) grp;
          passing_tds =
            count_where (\<lambda>e. outcome e = Some ''Complete'' \<and> touchdown e = Some 1) pass_df;
          defensive_tds =
            count_where (\<lambda>e. stat_type e \<in> set [''Interception'', ''Return''] \<and>
                              touchdown e = Some 1) grp
      in
      [(''Receptions'', CInt (count_where (\<lambda>e. stat_type e = ''Reception'') grp)),
       (''Receiving Yards'',
          CInt (sum_where (\<lambda>e. fill0 (yards e)) (\<lambda>e. stat_type e = ''Reception'') grp)),
       (''Receiving TDs'', CInt receiving_tds),
       (''Rush Attempts'', CInt (count_where (\<lambda>e. stat_type e = ''Run'') grp)),
       (''Rushing Yards'',
          CInt (sum_where (\<lambda>e. fill0 (yards e)) (\<lambda>e. stat_type e = ''Run'') grp)),
       (''Rushing TDs'', CInt rushing_tds),
       (''Punts'', CInt (count_where (\<lambda>e. stat_type e = ''Punt'') grp)),
       (''Punt Yards'',
          CInt (sum_where (\<lambda>e. fill0 (yards e)) (\<lambda>e. stat_type e = ''Punt'') grp)),
       (''Fumbles'', CInt (count_where (\<lambda>e. stat_type e = ''Fumble'') grp)),
       (''Pass Attempts'', CInt (int (length pass_df))),
       (''Pass Completions'', CInt (count_where (\<lambda>e. outcome e = Some ''Complete'') pass_df)),
       (''Pass Yards'',
          CInt (sum_where (\<lambda>e. fill0 (yards e)) (\<lambda>e. outcome e = Some ''Complete'') pass_df)),
       (''Passing TDs'', CInt passing_tds),
       (''FG Attempts'', CInt (int (length fg_df))),
       (''FG Made'', CInt (count_where (\<lambda>e. outcome e = Some ''Made'') fg_df)),
       (''FG Attempt Yards (Total)'', CInt (sum_where (\<lambda>e. fill0 (yards e)) (\<lambda>e. True) fg_df)),
       (''Forced Fumbles'', CInt (count_where (\<lambda>e. stat_type e = ''Forced Fumble'') grp)),
       (''Sacks'', CInt (count_where (\<lambda>e. stat_type e = ''Sack'') grp)),
       (''Interceptions'', CInt (count_where (\<lambda>e. stat_type e = ''Interception'') grp)),
       (''Tackles'', CInt (count_where (\<lambda>e. stat_type e = ''Tackle'') grp)),
       (''Return Yards'',
          CInt (sum_where (\<lambda>e. fill0 (yards e)) (\<lambda>e. stat_type e = ''Return'') grp)),
       (''Defensive TDs'', CInt defensive_tds),
       (''Touchdowns (Total)'',
          CInt (receiving_tds + rushing_tds + passing_tds + defensive_tds))])"

text \<open>
  One iteration of the loop over the groups.  \<open>iloc[0]\<close> raises on an empty
  group; \<open>groupby\<close> makes none.
\<close>

definition fb_totals_row :: "string \<Rightarrow> event list \<Rightarrow> py_error + totals_row" where
  "fb_totals_row pk grp =
     (case grp of
        [] \<Rightarrow> Inl IndexError
      | e0 # _ \<Rightarrow> Inr (identity_cols pk e0 @ fb_stats grp))"

text \<open>The numeric columns after \<open>to_numeric\<close>, \<open>fillna(0)\<close> and \<open>astype(int)\<close>.\<close>

definition fb_normalize :: "event \<Rightarrow> event" where
  "fb_normalize e = e\<lparr> yards := Some (fill0 (yards e)), touchdown := Some (fill0 (touchdown e)) \<rparr>"

text \<open>
  \<open>FootballSpec.aggregate_totals\<close>.  The filter \<open>df[df["sport"] == self.name]\<close>
  comes first and raises KeyError on the frame without columns.  After it and the
  test for an empty frame, \<open>df["yards"]\<close> raises KeyError without the column,
  \<open>df.get("touchdown", 0)\<close> is the integer 0 without the column, which
  \<open>pd.to_numeric\<close> returns as it is and which has no \<open>fillna\<close>
  (AttributeError), and the loop reads \<open>pass_df["outcome"]\<close>.
\<close>

definition FootballSpec_aggregate_totals :: "logs_df \<Rightarrow> py_error + totals_row list" where
  "FootballSpec_aggregate_totals logs =
     (if df_columns logs = [] then Inl (KeyError ''sport'') else
      let df = filter (\<lambda>e. sport e = ''Football'') (df_rows logs) in
      if df = [] then Inr []
      else if ''yards'' \<notin> set (df_columns logs) then Inl (KeyError ''yards'')
      else if ''touchdown'' \<notin> set (df_columns logs) then Inl AttributeError
      else if ''outcome'' \<notin> set (df_columns logs) then Inl (KeyError ''outcome'')
      else
        (let df = map fb_normalize df
         in bind_err (collect (map (\<lambda>(pk, grp). fb_totals_row pk grp) (groupby_player_key df)))
              (\<lambda>grouped. Inr (sort_values_names grouped))))"

section \<open>Soccer totals\<close>

definition sc_stats :: "event list \<Rightarrow> py_error + totals_row" where
  "sc_stats grp =
     (let pass_df = filter (\<lambda>e. stat_type e = ''Pass'') grp;
          foul_df = filter (\<lambda>e. stat_type e = ''Foul'') grp;
          passes_attempted = int (length pass_df);
          passes_completed = count_where (\<lambda>e. outcome e = Some ''Complete'') pass_df
      in
      bind_err (pct passes_completed passes_attempted) (\<lambda>pass_pct.
      Inr
      [(''Shots'', CInt (count_where (\<lambda>e. stat_type e = ''Shot'') grp)),
       (''Shots on Target'',
          CInt (sum_where (\<lambda>e. fill0 (on_target e)) (\<lambda>e. stat_type e = ''Shot'') grp)),
       (''Goals'', CInt (sum_where (\<lambda>e. fill0 (goal e)) (\<lambda>e. stat_type e = ''Shot'') grp)),
       (''Passes Attempted'', CInt passes_attempted),
       (''Passes Completed'', CInt passes_completed),
       (''Assists'', CInt (count_where (\<lambda>e. stat_type e = ''Assist'') grp)),
       (''Tackles'', CInt (count_where (\<lambda>e. stat_type e = ''Tackle'') grp)),
       (''Interceptions'', CInt (count_where (\<lambda>e. stat_type e = ''Interception'') grp)),
       (''Saves'', CInt (count_where (\<lambda>e. stat_type e = ''Save'') grp)),
       (''Fouls'', CInt (int (length foul_df))),
       (''Yellow Cards'', CInt (count_where (\<lambda>e. card_field e = Some ''Yellow'') foul_df)),
       (''Red Cards'', CInt (count_where (\<lambda>e. card_field e = Some ''Red'') foul_df)),
       (''Pass Completion %'', CFloat pass_pct)]))"

definition sc_totals_row :: "string \<Rightarrow> event list \<Rightarrow> py_error + totals_row" where
  "sc_totals_row pk grp =
     (case grp of
        [] \<Rightarrow> Inl IndexError
      | e0 # _ \<Rightarrow> bind_err (sc_stats grp) (\<lambda>stats. Inr (identity_cols pk e0 @ stats)))"

text \<open>The flags as integers, and a missing card as the string "None".\<close>

definition sc_normalize :: "event \<Rightarrow> event" where
  "sc_normalize e =
     e\<lparr> on_target := Some (fill0 (on_target e)),
        goal := Some (fill0 (goal e)),
        card_field := Some (case card_field e of None \<Rightarrow> ''None'' | Some c \<Rightarrow> c) \<rparr>"

text \<open>
  \<open>SoccerSpec.aggregate_totals\<close>.  The filter on \<open>sport\<close> raises KeyError on the
  frame without columns.  The three normalised columns are read with
  \<open>df.get(column, default)\<close>: without the column the default is a scalar (0, or the
  string "None"), and \<open>.fillna\<close> on it raises AttributeError.
\<close>

definition SoccerSpec_aggregate_totals :: "logs_df \<Rightarrow> py_error + totals_row list" where
  "SoccerSpec_aggregate_totals logs =
     (if df_columns logs = [] then Inl (KeyError ''sport'') else
      let df = filter (\<lambda>e. sport e = ''Soccer'') (df_rows logs) in
      if df = [] then Inr []
      else if ''on_target'' \<notin> set (df_columns logs) then Inl AttributeError
      else if ''goal'' \<notin> set (df_columns logs) then Inl AttributeError
      else if ''card'' \<notin> set (df_columns logs) then Inl AttributeError
      else if ''outcome'' \<notin> set (df_columns logs) then Inl (KeyError ''outcome'')
      else
        (let df = map sc_normalize df
         in bind_err (collect (map (\<lambda>(pk, grp). sc_totals_row pk grp) (groupby_player_key df)))
              (\<lambda>grouped. Inr (sort_values_names grouped))))"

section \<open>Lacrosse totals\<close>

text \<open>\<open>round(goals_allowed * 48 / minutes, 2) if minutes > 0 else 0.0\<close>\<close>

definition gaa :: "int \<Rightarrow> rat \<Rightarrow> py_error + rat" where
  "gaa goals_allowed mins =
     (if 0 < mins
      then bind_err (py_truediv (of_int (goals_allowed * 48)) mins) (\<lambda>q. Inr (py_round 2 q))
      else Inr 0)"

definition lc_stats :: "event list \<Rightarrow> py_error + totals_row" where
  "lc_stats grp =
     (let goals = count_where (\<lambda>e. stat_type e = ''Goal'') grp;
          shots = filter (\<lambda>e. stat_type e = ''Shot'') grp;
          n_shots = int (length shots);
          shots_on_goal = sum_where (\<lambda>e. fill0 (on_target e)) (\<lambda>e. True) shots;
          assists = count_where (\<lambda>e. stat_type e = ''Assist'') grp;
          fo = filter (\<lambda>e. stat_type e = ''Faceoff'') grp;
          faceoffs_attempted = int (length fo);
          faceoffs_won = count_where (\<lambda>e. outcome e = Some ''Win'') fo;
          takeaways = count_where (\<lambda>e. stat_type e = ''Takeaway'') grp;
          interceptions = count_where (\<lambda>e. stat_type e = ''Interception'') grp;
          pen = filter (\<lambda>e. stat_type e = ''Penalty'') grp;
          saves = count_where (\<lambda>e. stat_type e = ''Save'') grp;
          goals_allowed = count_where (\<lambda>e. stat_type e = ''Goal Allowed'') grp;
          mins = sum_where (\<lambda>e. fill0 (minutes e)) (\<lambda>e. stat_type e = ''Goalie Minutes'') grp;
          sog_faced = saves + goals_allowed
      in
      bind_err (pct faceoffs_won faceoffs_attempted) (\<lambda>faceoff_pct.
      bind_err (pct saves sog_faced) (\<lambda>save_pct.
      bind_err (gaa goals_allowed mins) (\<lambda>gaa_val.
      bind_err (pct goals shots_on_goal) (\<lambda>shooting_pct.
      bind_err (pct shots_on_goal n_shots) (\<lambda>sog_rate.
      Inr
      [(''Goals'', CInt goals),
       (''Shots'', CInt n_shots),
       (''Shots on Goal'', CInt shots_on_goal),
       (''Assists'', CInt assists),
       (''Points'', CInt (goals + assists)),
       (''Ground Balls'', CInt (count_where (\<lambda>e. stat_type e = ''Ground Ball'') grp)),
       (''Faceoffs Attempted'', CInt faceoffs_attempted),
       (''Faceoffs Won'', CInt faceoffs_won),
       (''Faceoff %'', CFloat faceoff_pct),
       (''Takeaways'', CInt takeaways),
       (''Interceptions'', CInt interceptions),
       (''Caused Turnovers'', CInt (takeaways + interceptions)),
       (''Turnovers'', CInt (count_where (\<lambda>e. stat_type e = ''Turnover'') grp)),
       (''Penalties'', CInt (int (length pen))),
       (''Penalty Minutes'',
          CFloat (if pen \<noteq> [] then sum_where (\<lambda>e. fill0 (penalty_minutes e)) (\<lambda>e. True) pen
                  else 0)),
       (''Saves'', CInt saves),
       (''Goals Allowed'', CInt goals_allowed),
       (''Minutes'', CFloat mins),
       (''Shots on Goal Faced'', CInt sog_faced),
       (''Save %'', CFloat save_pct),
       (''GAA'', CFloat gaa_val),
       (''Shooting %'', CFloat shooting_pct),
       (''SOG Rate %'', CFloat sog_rate)]))))))"

definition lc_totals_row :: "string \<Rightarrow> event list \<Rightarrow> py_error + totals_row" where
  "lc_totals_row pk grp =
     (case grp of
        [] \<Rightarrow> Inl IndexError
      | e0 # _ \<Rightarrow> bind_err (lc_stats grp) (\<lambda>stats. Inr (identity_cols pk e0 @ stats)))"

definition lc_normalize :: "event \<Rightarrow> event" where
  "lc_normalize e =
     e\<lparr> on_target := Some (fill0 (on_target e)),
        penalty_minutes := Some (fill0 (penalty_minutes e)),
        minutes := Some (fill0 (minutes e)) \<rparr>"

text \<open>
  \<open>LacrosseSpec.aggregate_totals\<close>, with the same filter on \<open>sport\<close> and the
  same reading of the columns \<open>on_target\<close>, \<open>penalty_minutes\<close> and \<open>minutes\<close>.
\<close>

definition LacrosseSpec_aggregate_totals :: "logs_df \<Rightarrow> py_error + totals_row list" where
  "LacrosseSpec_aggregate_totals logs =
     (if df_columns logs = [] then Inl (KeyError ''sport'') else
      let df = filter (\<lambda>e. sport e = ''Lacrosse'') (df_rows logs) in
      if df = [] then Inr []
      else if ''on_target'' \<notin> set (df_columns logs) then Inl AttributeError
      else if ''penalty_minutes'' \<notin> set (df_columns logs) then Inl AttributeError
      else if ''minutes'' \<notin> set (df_columns logs) then Inl AttributeError
      else if ''outcome'' \<notin> set (df_columns logs) then Inl (KeyError ''outcome'')
      else
        (let df = map lc_normalize df
         in bind_err (collect (map (\<lambda>(pk, grp). lc_totals_row pk grp) (groupby_player_key df)))
              (\<lambda>grouped. Inr (sort_values_names grouped))))"

section \<open>Sports without an implementation\<close>

text \<open>
  \<open>SportSpec.aggregate_totals\<close>, which Baseball and Basketball inherit: an empty
  DataFrame whatever the log.
\<close>

definition SportSpec_aggregate_totals :: "logs_df \<Rightarrow> py_error + totals_row list" where
  "SportSpec_aggregate_totals logs = Inr []"

definition BaseballSpec_aggregate_totals :: "logs_df \<Rightarrow> py_error + totals_row list" where
  "BaseballSpec_aggregate_totals = SportSpec_aggregate_totals"

definition BasketballSpec_aggregate_totals :: "logs_df \<Rightarrow> py_error + totals_row list" where
  "BasketballSpec_aggregate_totals = SportSpec_aggregate_totals"

section \<open>The MaxPreps export\<close>

text \<open>
  A totals table as the export page loads it: its column names (distinct) and its
  rows; a row gives the cell of each column, and a column it does not hold is a
  missing value.
\<close>

record totals_df =
  t_columns :: "string list"
  t_rows :: "totals_row list"

definition cell_at :: "totals_row \<Rightarrow> string \<Rightarrow> cell" where
  "cell_at row c = (case map_of row c of None \<Rightarrow> CNull | Some v \<Rightarrow> v)"

definition MAXPREPS_FIELDS :: "string list" where
  "MAXPREPS_FIELDS =
     [''Jersey'', ''RushingNum'', ''RushingYards'', ''RushingLong'', ''ReceivingNum'',
      ''ReceivingYards'', ''ReceivingLong'', ''PassingComp'', ''PassingAtt'',
      ''PassingInt'', ''PassingYards'', ''PassingTD'', ''PassingLong'',
      ''OffensiveFumbles'', ''OffensiveFumblesLost'', ''PancakeBlocks'', ''Tackles'',
      ''Assists'', ''TotalTackles'', ''TacklesForLoss'', ''Sacks'', ''SacksYardsLost'',
      ''QBHurries'', ''INTs'', ''INTYards'', ''PassesDefensed'', ''BlockedPunts'',
      ''BlockedFG'', ''FumbleRecoveries'', ''FumbleRecoveryYards'', ''CausedFumbles'',
      ''PuntReturnNum'', ''PuntReturnYards'', ''PuntReturnLong'',
      ''PuntReturnFairCatches'', ''KickoffReturnNum'', ''KickoffReturnYards'',
      ''KickoffReturnLong'', ''TotalReturnYards'', ''PuntNum'', ''PuntYards'',
      ''PuntLong'', ''PuntInside20'', ''KickoffNum'', ''KickoffYards'', ''KickoffLong'',
      ''KickoffTouchbacks'', ''Touchdowns'', ''RushingTDNum'', ''ReceivingTDNum'',
      ''FumbleReturnedTDNum'', ''IntReturnedTDNum'', ''PuntReturnedTDNum'',
      ''KickoffReturnedTDNum'', ''TotalTDNum'', ''PATKickingMade'', ''PATKickingAtt'',
      ''PATKickingPoints'', ''PATRushingNum'', ''PATReceivingNum'',
      ''TotalConversionPoints'', ''FGMade'', ''FGAttempted'', ''FGLong'', ''Safeties'',
      ''TotalPoints'']"

definition supplier_id :: string where
  "supplier_id = ''669ae75f-4563-494a-8c17-370aaa8539d4''"

definition newline :: string where
  "newline = [CHR 0x0A]"

text \<open>\<open>sep.join(xs)\<close>\<close>

fun join :: "string \<Rightarrow> string list \<Rightarrow> string" where
  "join sep [] = []"
| "join sep [x] = x"
| "join sep (x # y # ys) = x @ sep @ join sep (y # ys)"

text \<open>
  \<open>float(i)\<close> of an integer: the nearest float, which is a whole number.  A float
  holds 53 binary digits; a longer integer is rounded to 53 digits, half to even,
  and the conversion raises OverflowError when the result reaches \<open>2 ^ 1024\<close>.
\<close>

fun bit_length :: "nat \<Rightarrow> nat" where
  "bit_length n = (if n = 0 then 0 else Suc (bit_length (n div 2)))"

declare bit_length.simps [simp del]

definition float_of_int :: "int \<Rightarrow> py_error + int" where
  "float_of_int i =
     (let a = nat \<bar>i\<bar>;
          e = bit_length a - 53;
          m = (if e = 0 then int a else round_half_even (of_nat a / 2 ^ e) * 2 ^ e)
      in if 2 ^ 1024 \<le> m then Inl OverflowError else Inr (sgn i * m))"

text \<open>
  \<open>coerce_str_no_nan\<close>.  A missing value is the empty string and a string is
  stripped.  A number is printed through \<open>float\<close>: a whole float prints as its
  integer, an integer prints as the integer of its float, or as itself when the
  conversion raises, and a float that is not whole prints as \<open>str\<close> prints it,
  which is the parameter \<open>float_str\<close>.
\<close>

definition coerce_str_no_nan :: "(rat \<Rightarrow> string) \<Rightarrow> cell \<Rightarrow> string" where
  "coerce_str_no_nan float_str x =
     (case x of
        CNull \<Rightarrow> []
      | CStr s \<Rightarrow> strip s
      | CInt i \<Rightarrow> (case float_of_int i of Inl err \<Rightarrow> str_int i | Inr d \<Rightarrow> str_int d)
      | CFloat q \<Rightarrow> (if q = of_int \<lfloor>q\<rfloor> then str_int \<lfloor>q\<rfloor> else float_str q))"

definition resolve_column_name_case_insensitive :: "string list \<Rightarrow> string \<Rightarrow> string" where
  "resolve_column_name_case_insensitive cols name =
     (case filter (\<lambda>c. lower (strip c) = lower (strip name)) cols of
        [] \<Rightarrow> name
      | c # _ \<Rightarrow> c)"

text \<open>\<open>not pd.isna(v) and str(v).strip() != ""\<close>; a number never prints blank.\<close>

definition has_value :: "cell \<Rightarrow> bool" where
  "has_value v =
     (case v of CNull \<Rightarrow> False | CStr s \<Rightarrow> strip s \<noteq> [] | CInt _ \<Rightarrow> True | CFloat _ \<Rightarrow> True)"

text \<open>
  The field mapping is a dict from sheet column to MaxPreps field, here the list of
  its items in insertion order.
\<close>

definition choose_fields_to_include :: "totals_df \<Rightarrow> (string \<times> string) list \<Rightarrow> string list" where
  "choose_fields_to_include df field_map =
     (let included =
            map snd
              (filter (\<lambda>(sheet_col, mp_field).
                         mp_field \<noteq> ''Jersey'' \<and> sheet_col \<in> set (t_columns df) \<and>
                         list_ex (\<lambda>row. has_value (cell_at row sheet_col)) (t_rows df))
                 field_map);
          order = filter (\<lambda>f. f \<noteq> ''Jersey'') MAXPREPS_FIELDS;
          included_sorted = filter (\<lambda>f. f \<in> set included) order;
          extras = filter (\<lambda>f. f \<notin> set included_sorted) included
      in included_sorted @ extras)"

definition reverse_map_of :: "totals_df \<Rightarrow> (string \<times> string) list \<Rightarrow> (string \<rightharpoonup> string)" where
  "reverse_map_of df field_map =
     fold (\<lambda>(sheet_col, mp_field) m.
             if sheet_col \<in> set (t_columns df) then m(mp_field \<mapsto> sheet_col)
             else (let resolved = resolve_column_name_case_insensitive (t_columns df) sheet_col
                   in if resolved \<in> set (t_columns df) then m(mp_field \<mapsto> resolved) else m))
       field_map Map.empty"

text \<open>The values of one row after the jersey: one per included field.\<close>

definition field_values ::
  "(rat \<Rightarrow> string) \<Rightarrow> (string \<rightharpoonup> string) \<Rightarrow> string list \<Rightarrow> totals_row \<Rightarrow> string list" where
  "field_values float_str reverse_map included_fields row =
     map (\<lambda>mp_field.
            (case reverse_map mp_field of
               None \<Rightarrow> []
             | Some sheet_col \<Rightarrow>
                 if sheet_col = [] then [] else coerce_str_no_nan float_str (cell_at row sheet_col)))
       included_fields"

text \<open>The loop over the rows: a row is skipped, or appends one line.\<close>

fun data_lines ::
  "(rat \<Rightarrow> string) \<Rightarrow> string \<Rightarrow> (string \<rightharpoonup> string) \<Rightarrow> string list \<Rightarrow> totals_row list
     \<Rightarrow> string list" where
  "data_lines float_str jersey_col reverse_map included_fields [] = []"
| "data_lines float_str jersey_col reverse_map included_fields (row # rows) =
     (let jersey_val = coerce_str_no_nan float_str (cell_at row jersey_col) in
      if jersey_val = [] then data_lines float_str jersey_col reverse_map included_fields rows
      else
        (let values = jersey_val # field_values float_str reverse_map included_fields row in
         if list_ex (\<lambda>v. v \<noteq> []) (tl values)
         then join ''|'' values #
              data_lines float_str jersey_col reverse_map included_fields rows
         else data_lines float_str jersey_col reverse_map included_fields rows))"

text \<open>The list \<open>lines\<close> of \<open>build_maxpreps_txt\<close>, and the text it returns.\<close>

definition build_maxpreps_lines ::
  "(rat \<Rightarrow> string) \<Rightarrow> totals_df \<Rightarrow> (string \<times> string) list \<Rightarrow> string \<Rightarrow> py_error + string list" where
  "build_maxpreps_lines float_str df field_map jersey_column_name =
     (let jersey_column_resolved =
            resolve_column_name_case_insensitive (t_columns df) jersey_column_name
      in
      if jersey_column_resolved \<notin> set (t_columns df) then Inl ValueError
      else
        (let reverse_map = reverse_map_of df field_map;
             included_fields = choose_fields_to_include df field_map;
             header_fields = ''Jersey'' # included_fields
         in Inr ([supplier_id, join ''|'' header_fields] @
                 data_lines float_str jersey_column_resolved reverse_map included_fields
                   (t_rows df))))"

definition build_maxpreps_txt ::
  "(rat \<Rightarrow> string) \<Rightarrow> totals_df \<Rightarrow> (string \<times> string) list \<Rightarrow> string \<Rightarrow> py_error + string" where
  "build_maxpreps_txt float_str df field_map jersey_column_name =
     bind_err (build_maxpreps_lines float_str df field_map jersey_column_name)
       (\<lambda>lines. Inr (join newline lines @ newline))"

section \<open>Notions used in the statements\<close>

text \<open>The events of one sport and one player, in the order of the log.\<close>

definition player_events :: "string \<Rightarrow> string \<Rightarrow> logs_df \<Rightarrow> event list" where
  "player_events sp pk logs = filter (\<lambda>e. sport e = sp \<and> player_key e = pk) (df_rows logs)"

text \<open>The frame each aggregation function groups: the sport's rows, normalised.\<close>

definition fb_rows :: "logs_df \<Rightarrow> event list" where
  "fb_rows logs = map fb_normalize (filter (\<lambda>e. sport e = ''Football'') (df_rows logs))"

definition sc_rows :: "logs_df \<Rightarrow> event list" where
  "sc_rows logs = map sc_normalize (filter (\<lambda>e. sport e = ''Soccer'') (df_rows logs))"

definition lc_rows :: "logs_df \<Rightarrow> event list" where
  "lc_rows logs = map lc_normalize (filter (\<lambda>e. sport e = ''Lacrosse'') (df_rows logs))"

text \<open>
  The Football formulas as the specification words them, for the events \<open>evs\<close> of
  one player and that player's totals row \<open>r\<close>; a missing number counts as 0.
\<close>

definition football_formulas :: "event list \<Rightarrow> totals_row \<Rightarrow> bool" where
  "football_formulas evs r =
     (let td = (\<lambda>e. fill0 (touchdown e) = 1);
          complete_pass = (\<lambda>e. stat_type e = ''Pass'' \<and> outcome e = Some ''Complete'');
          receiving_tds = int (length (filter (\<lambda>e. stat_type e = ''Reception'' \<and> td e) evs));
          rushing_tds = int (length (filter (\<lambda>e. stat_type e = ''Run'' \<and> td e) evs));
          passing_tds = int (length (filter (\<lambda>e. complete_pass e \<and> td e) evs));
          defensive_tds =
            int (length (filter (\<lambda>e. (stat_type e = ''Interception'' \<or> stat_type e = ''Return'')
                                       \<and> td e) evs))
      in
      col r ''FG Attempt Yards (Total)''
        = Some (CInt (\<Sum>e\<leftarrow>filter (\<lambda>e. stat_type e = ''Field Goal'') evs. fill0 (yards e))) \<and>
      col r ''Pass Yards''
        = Some (CInt (\<Sum>e\<leftarrow>filter complete_pass evs. fill0 (yards e))) \<and>
      col r ''Receiving TDs'' = Some (CInt receiving_tds) \<and>
      col r ''Rushing TDs'' = Some (CInt rushing_tds) \<and>
      col r ''Passing TDs'' = Some (CInt passing_tds) \<and>
      col r ''Defensive TDs'' = Some (CInt defensive_tds) \<and>
      col r ''Touchdowns (Total)''
        = Some (CInt (receiving_tds + rushing_tds + passing_tds + defensive_tds)))"

text \<open>
  All rows of one sport with the same player key carry the same identity columns.
\<close>

definition identity_consistent :: "event list \<Rightarrow> bool" where
  "identity_consistent rows =
     (\<forall>e\<in>set rows. \<forall>e'\<in>set rows.
        sport e = sport e' \<and> player_key e = player_key e' \<longrightarrow>
        first_name e = first_name e' \<and> last_name e = last_name e' \<and>
        number e = number e' \<and> positions e = positions e')"

text \<open>
  The Lacrosse columns that are sums of floats, or computed from one, and a totals
  row without some columns.
\<close>

definition lc_float_sum_cols :: "string list" where
  "lc_float_sum_cols = [''Penalty Minutes'', ''Minutes'', ''GAA'']"

definition drop_cols :: "string list \<Rightarrow> totals_row \<Rightarrow> totals_row" where
  "drop_cols cs r = filter (\<lambda>(c, v). c \<notin> set cs) r"

text \<open>
  The guard of the ratio columns of a Soccer row and of a Lacrosse row: each ratio
  is a number, and it is 0 when the column it divides by is 0.
\<close>

definition is_number :: "cell option \<Rightarrow> bool" where
  "is_number v = (case v of Some (CFloat q) \<Rightarrow> True | _ \<Rightarrow> False)"

definition sc_ratio_guard :: "totals_row \<Rightarrow> bool" where
  "sc_ratio_guard r =
     (is_number (col r ''Pass Completion %'') \<and>
      (col r ''Passes Attempted'' = Some (CInt 0)
         \<longrightarrow> col r ''Pass Completion %'' = Some (CFloat 0)))"

definition lc_ratio_guard :: "totals_row \<Rightarrow> bool" where
  "lc_ratio_guard r =
     (is_number (col r ''Faceoff %'') \<and>
      (col r ''Faceoffs Attempted'' = Some (CInt 0) \<longrightarrow> col r ''Faceoff %'' = Some (CFloat 0)) \<and>
      is_number (col r ''Save %'') \<and>
      (col r ''Shots on Goal Faced'' = Some (CInt 0) \<longrightarrow> col r ''Save %'' = Some (CFloat 0)) \<and>
      is_number (col r ''GAA'') \<and>
      (col r ''Minutes'' = Some (CFloat 0) \<longrightarrow> col r ''GAA'' = Some (CFloat 0)) \<and>
      is_number (col r ''Shooting %'') \<and>
      (col r ''Shots on Goal'' = Some (CInt 0) \<longrightarrow> col r ''Shooting %'' = Some (CFloat 0)) \<and>
      is_number (col r ''SOG Rate %'') \<and>
      (col r ''Shots'' = Some (CInt 0) \<longrightarrow> col r ''SOG Rate %'' = Some (CFloat 0)))"

text \<open>
  The export keeps a row when its jersey value is not empty and at least one of its
  other values is not empty, and writes the kept row as one line.
\<close>

definition export_keeps ::
  "(rat \<Rightarrow> string) \<Rightarrow> string \<Rightarrow> (string \<rightharpoonup> string) \<Rightarrow> string list \<Rightarrow> totals_row \<Rightarrow> bool" where
  "export_keeps float_str jersey_col reverse_map included_fields row =
     (coerce_str_no_nan float_str (cell_at row jersey_col) \<noteq> [] \<and>
      list_ex (\<lambda>v. v \<noteq> []) (field_values float_str reverse_map included_fields row))"

definition export_line ::
  "(rat \<Rightarrow> string) \<Rightarrow> string \<Rightarrow> (string \<rightharpoonup> string) \<Rightarrow> string list \<Rightarrow> totals_row \<Rightarrow> string" where
  "export_line float_str jersey_col reverse_map included_fields row =
     join ''|'' (coerce_str_no_nan float_str (cell_at row jersey_col) #
                 field_values float_str reverse_map included_fields row)"

section \<open>Sample data\<close>

text \<open>A roster of two players, and one of a single player.\<close>

definition demo_sheet :: "sheet_row list" where
  "demo_sheet =
     [\<lparr> src_first_name = ''Ann'', src_last_name = ''Lee'', src_number = Some 7,
         src_positions = ''QB'' \<rparr>,
      \<lparr> src_first_name = ''Bo'', src_last_name = ''Ray'', src_number = Some 12,
         src_positions = ''WR'' \<rparr>]"

definition solo_sheet :: "sheet_row list" where
  "solo_sheet =
     [\<lparr> src_first_name = ''Ann'', src_last_name = ''Lee'', src_number = Some 7,
         src_positions = ''GK'' \<rparr>]"

text \<open>A completed 20 yard touchdown pass from Ann Lee to Bo Ray, with the pairing on.\<close>

definition demo_fb_pass :: fb_form where
  "demo_fb_pass =
     \<lparr> fb_player_select = ''#7 Ann Lee'', fb_side_select = ''Offense'',
       fb_stat_off = ''Pass'', fb_stat_def = ''Sack'', fb_yards = 20, fb_td = True,
       fb_pass_outcome = ''Complete'', fb_receiver = ''#12 Bo Ray'',
       fb_pair_reception = True, fb_fg_outcome = ''Made'', fb_notes = '' deep left '',
       fb_submitted = True, fb_now = ''2025-09-05T19:30:00'' \<rparr>"

text \<open>A completed soccer pass from Ann Lee to Bo Ray that resulted in a goal.\<close>

definition demo_sc_pass :: sc_form where
  "demo_sc_pass =
     \<lparr> sc_player_select = ''#7 Ann Lee'', sc_stat_type = ''Pass'',
       sc_shot_on_target = ''Yes'', sc_shot_goal = False, sc_pass_outcome = ''Complete'',
       sc_receiver = ''#12 Bo Ray'', sc_pass_goal = True, sc_foul_card = ''None'',
       sc_notes = [], sc_submitted = True, sc_now = ''2025-09-05T19:30:00'' \<rparr>"

text \<open>
  The same pass entered with the single-player roster: the recipient select box has
  no eligible player and holds its placeholder option.
\<close>

definition solo_sc_pass :: sc_form where
  "solo_sc_pass = demo_sc_pass\<lparr> sc_receiver := ''None'' \<rparr>"

text \<open>A soccer tackle.\<close>

definition demo_sc_tackle :: sc_form where
  "demo_sc_tackle = demo_sc_pass\<lparr> sc_stat_type := ''Tackle'' \<rparr>"

text \<open>A lacrosse goal by Ann Lee, assisted by Bo Ray, and one without an assist.\<close>

definition demo_lc_goal :: lc_form where
  "demo_lc_goal =
     \<lparr> lc_player_select = ''#7 Ann Lee'', lc_stat_type = ''Goal'',
       lc_assist = ''#12 Bo Ray'', lc_sog = ''Yes'', lc_faceoff = ''Win'', lc_penmin = 1,
       lc_minutes = 12, lc_notes = [], lc_submitted = True,
       lc_now = ''2025-09-05T19:30:00'' \<rparr>"

definition demo_lc_goal_unassisted :: lc_form where
  "demo_lc_goal_unassisted = demo_lc_goal\<lparr> lc_assist := ''None'' \<rparr>"

text \<open>Event logs.  \<open>demo_event\<close> is a row with no attribute set.\<close>

definition demo_event :: "string \<Rightarrow> string \<Rightarrow> string \<Rightarrow> string \<Rightarrow> string \<Rightarrow> event" where
  "demo_event sp pk fnm lnm st =
     \<lparr> player_key = pk, first_name = fnm, last_name = lnm, number = None, positions = [],
       timestamp = ''2025-09-05T19:30:00'', sport = sp, side = ''All'', notes_field = [],
       stat_type = st,
       outcome = None, yards = None, touchdown = None, on_target = None, goal = None,
       card_field = None, penalty_minutes = None, minutes = None \<rparr>"

definition demo_fb_rows :: "event list" where
  "demo_fb_rows =
     [(demo_event ''Football'' ''#7 Ann Lee'' ''Ann'' ''Lee'' ''Pass'')
         \<lparr> outcome := Some ''Complete'', yards := Some 20, touchdown := Some 1 \<rparr>,
      (demo_event ''Football'' ''#12 Bo Ray'' ''Bo'' ''Ray'' ''Reception'')
         \<lparr> yards := Some 20, touchdown := Some 1 \<rparr>,
      (demo_event ''Football'' ''#7 Ann Lee'' ''Ann'' ''Lee'' ''Pass'')
         \<lparr> outcome := Some ''Incomplete'', touchdown := Some 0 \<rparr>,
      (demo_event ''Football'' ''#12 Bo Ray'' ''Bo'' ''Ray'' ''Field Goal'')
         \<lparr> outcome := Some ''Miss'', yards := Some 45, touchdown := Some 0 \<rparr>,
      (demo_event ''Football'' ''#12 Bo Ray'' ''Bo'' ''Ray'' ''Field Goal'')
         \<lparr> outcome := Some ''Made'', yards := Some 30, touchdown := Some 0 \<rparr>,
      (demo_event ''Football'' ''#7 Ann Lee'' ''Ann'' ''Lee'' ''Interception'')
         \<lparr> touchdown := Some 1 \<rparr>]"

definition demo_fb_logs :: logs_df where
  "demo_fb_logs = concat_rows new_game_logs demo_fb_rows"

text \<open>A Soccer log with a shot, a foul and a tackle, and a Lacrosse log of a goalie.\<close>

definition demo_sc_logs :: logs_df where
  "demo_sc_logs =
     concat_rows new_game_logs
       [(demo_event ''Soccer'' ''#12 Bo Ray'' ''Bo'' ''Ray'' ''Shot'')
           \<lparr> on_target := Some 1, goal := Some 0 \<rparr>,
        (demo_event ''Soccer'' ''#12 Bo Ray'' ''Bo'' ''Ray'' ''Foul'')
           \<lparr> card_field := Some ''Yellow'' \<rparr>,
        demo_event ''Soccer'' ''#7 Ann Lee'' ''Ann'' ''Lee'' ''Tackle'']"

definition demo_lc_logs :: logs_df where
  "demo_lc_logs =
     concat_rows new_game_logs
       [demo_event ''Lacrosse'' ''#7 Ann Lee'' ''Ann'' ''Lee'' ''Ground Ball'',
        (demo_event ''Lacrosse'' ''#7 Ann Lee'' ''Ann'' ''Lee'' ''Shot'')
           \<lparr> on_target := Some 0 \<rparr>,
        (demo_event ''Lacrosse'' ''#12 Bo Ray'' ''Bo'' ''Ray'' ''Penalty'')
           \<lparr> penalty_minutes := Some 1 \<rparr>,
        (demo_event ''Lacrosse'' ''#12 Bo Ray'' ''Bo'' ''Ray'' ''Goalie Minutes'')
           \<lparr> minutes := Some 0 \<rparr>]"

text \<open>
  Two Football rows of one player, entered before and after the roster was imported
  again with the player's positions changed: one key, two values of \<open>positions\<close>.
\<close>

definition clash_rows :: "event list" where
  "clash_rows =
     [(demo_event ''Football'' ''#7 Ann Lee'' ''Ann'' ''Lee'' ''Run'')
         \<lparr> number := Some 7, positions := ''QB'', yards := Some 5, touchdown := Some 0 \<rparr>,
      (demo_event ''Football'' ''#7 Ann Lee'' ''Ann'' ''Lee'' ''Fumble'')
         \<lparr> number := Some 7, positions := ''QB/WR'', touchdown := Some 0 \<rparr>]"

text \<open>The row of the tackle entered on \<open>demo_sc_tackle\<close>.\<close>

definition demo_tackle_row :: event where
  "demo_tackle_row =
     (demo_event ''Soccer'' ''#7 Ann Lee'' ''Ann'' ''Lee'' ''Tackle'')
       \<lparr> number := Some 7, positions := ''QB'' \<rparr>"

text \<open>
  A totals table for the export: a row with a whole float, two rows without a
  jersey (a space, a no-break space) and a row with nothing but a jersey.  It holds
  no fractional number, and the printer of floats given with it is not called.
\<close>

definition demo_totals :: totals_df where
  "demo_totals =
     \<lparr> t_columns = [''Jersey'', ''Rush Att'', ''Rush Yds''],
       t_rows =
         [[(''Jersey'', CStr ''12''), (''Rush Att'', CInt 5), (''Rush Yds'', CFloat 42)],
          [(''Jersey'', CStr '' ''), (''Rush Att'', CInt 3), (''Rush Yds'', CInt 12)],
          [(''Jersey'', CStr [CHR 0xA0]), (''Rush Att'', CInt 7), (''Rush Yds'', CInt 30)],
          [(''Jersey'', CStr ''10''), (''Rush Att'', CNull), (''Rush Yds'', CStr [])]] \<rparr>"

definition demo_field_map :: "(string \<times> string) list" where
  "demo_field_map =
     [(''Jersey'', ''Jersey''), (''number'', ''Jersey''), (''Rush Att'', ''RushingNum''),
      (''Rush Yds'', ''RushingYards''), (''Rec'', ''ReceivingNum'')]"

definition no_float_str :: "rat \<Rightarrow> string" where
  "no_float_str q = []"

section \<open>Roster lookups\<close>

lemma lookup_player_in:
  assumes "k \<in> set (map player_key roster)"
  shows "\<exists>pr. lookup_player roster k = Inr pr \<and> player_key pr = k \<and> pr \<in> set roster"
proof -
  from assms have ne: "filter (\<lambda>r. player_key r = k) roster \<noteq> []"
    by (auto simp: filter_empty_conv)
  then obtain r rs where eq: "filter (\<lambda>r. player_key r = k) roster = r # rs"
    by (cases "filter (\<lambda>r. player_key r = k) roster") auto
  then have "r \<in> set (filter (\<lambda>r. player_key r = k) roster)" by simp
  then have "player_key r = k" "r \<in> set roster" by auto
  with eq show ?thesis by (simp add: lookup_player_def)
qed

lemma lookup_player_notin:
  assumes "k \<notin> set (map player_key roster)"
  shows "lookup_player roster k = Inl IndexError"
proof -
  from assms have "filter (\<lambda>r. player_key r = k) roster = []"
    by (auto simp: filter_empty_conv)
  then show ?thesis by (simp add: lookup_player_def)
qed

text \<open>Every key that \<open>read_roster_df\<close> builds starts with the number sign.\<close>

lemma read_roster_key_hash:
  assumes "k \<in> set (map player_key (read_roster_df sheet))"
  shows "\<exists>t. k = CHR ''#'' # t"
  using assms by (auto simp: read_roster_df_def player_key_of_def)

lemma demo_roster_keys:
  "map player_key (read_roster_df demo_sheet) = [''#7 Ann Lee'', ''#12 Bo Ray'']"
  by (simp add: read_roster_df_def demo_sheet_def player_key_of_def str_int_def
      str_nat.simps digit_char_def)

lemma solo_roster_keys:
  "map player_key (read_roster_df solo_sheet) = [''#7 Ann Lee'']"
  by (simp add: read_roster_df_def solo_sheet_def player_key_of_def str_int_def
      str_nat.simps digit_char_def)

section \<open>Derived events\<close>

text \<open>A pass is an offensive stat: the defensive select box does not offer it.\<close>

lemma fb_pass_is_offense:
  assumes "fb_form_ok roster w" and "fb_stat_type w = ''Pass''"
  shows "fb_side_select w = ''Offense'' \<and> fb_stat_off w = ''Pass''"
  using assms
  by (auto simp: fb_form_ok_def fb_stat_type_def fb_locals_def fb_def_options_def Let_def
      split: if_splits)

text \<open>
  C1.  Football: a submitted completed pass with the pairing box checked and a
  receiver chosen from the receiver options (the roster keys other than the passer's)
  gives exactly two rows, a Pass for the passer and a Reception for the receiver,
  both with the entered yards and the touchdown flag.
\<close>

theorem football_pass_pairs_reception:
  assumes ok: "fb_form_ok roster w"
    and sub: "fb_submitted w"
    and st: "fb_stat_type w = ''Pass''"
    and oc: "fb_pass_outcome w = ''Complete''"
    and pair: "fb_pair_reception w"
    and rcv: "fb_receiver w \<in> set (receiver_options roster (fb_player_select w))"
  shows "\<exists>p r. FootballSpec_build_form roster w = Inr [p, r] \<and>
           stat_type p = ''Pass'' \<and> player_key p = fb_player_select w \<and>
           stat_type r = ''Reception'' \<and> player_key r = fb_receiver w \<and>
           yards p = Some (fb_yards w) \<and> yards r = Some (fb_yards w) \<and>
           touchdown p = Some (td_val (fb_td w)) \<and> touchdown r = Some (td_val (fb_td w))"
proof -
  from ok st have off: "fb_side_select w = ''Offense''" "fb_stat_off w = ''Pass''"
    using fb_pass_is_offense by blast+
  have loc: "fb_locals w = (''Pass'', Some ''Complete'', Some (fb_yards w), td_val (fb_td w))"
    using off oc by (simp add: fb_locals_def)
  from ok have "fb_player_select w \<in> set (map player_key roster)"
    by (simp add: fb_form_ok_def)
  then obtain pr where pr: "lookup_player roster (fb_player_select w) = Inr pr"
    using lookup_player_in by blast
  from rcv have "fb_receiver w \<in> set (map player_key roster)"
    by (auto simp: receiver_options_def)
  then obtain rc where rc: "lookup_player roster (fb_receiver w) = Inr rc"
    "player_key rc = fb_receiver w"
    using lookup_player_in by blast
  show ?thesis
    using loc pr rc sub off pair
    by (simp add: FootballSpec_build_form_def base_row_def with_player_def)
qed

theorem football_pass_pairs_reception_witness:
  "\<exists>p r. FootballSpec_build_form (read_roster_df demo_sheet) demo_fb_pass = Inr [p, r] \<and>
     stat_type p = ''Pass'' \<and> player_key p = ''#7 Ann Lee'' \<and>
     stat_type r = ''Reception'' \<and> player_key r = ''#12 Bo Ray'' \<and>
     yards p = Some 20 \<and> yards r = Some 20 \<and>
     touchdown p = Some 1 \<and> touchdown r = Some 1"
proof -
  have "fb_form_ok (read_roster_df demo_sheet) demo_fb_pass"
    by (simp add: fb_form_ok_def receiver_options_def demo_roster_keys demo_fb_pass_def
        fb_sides_def fb_off_options_def fb_def_options_def)
  moreover have "fb_stat_type demo_fb_pass = ''Pass''"
    by (simp add: fb_stat_type_def fb_locals_def demo_fb_pass_def)
  moreover have "fb_receiver demo_fb_pass
      \<in> set (receiver_options (read_roster_df demo_sheet) (fb_player_select demo_fb_pass))"
    by (simp add: receiver_options_def demo_roster_keys demo_fb_pass_def)
  ultimately show ?thesis
    using football_pass_pairs_reception [of "read_roster_df demo_sheet" demo_fb_pass]
    by (simp add: demo_fb_pass_def td_val_def)
qed

text \<open>
  C2.  Soccer: a submitted completed pass to a recipient chosen from the recipient
  options (the roster keys other than the passer's) with the resulted-in-goal box
  checked gives exactly three rows: a Pass and an Assist for the passer and a Shot
  for the recipient that is on target and a goal.
\<close>

theorem soccer_goal_pass_three_events:
  assumes pl: "sc_player_select w \<in> set (map player_key (read_roster_df sheet))"
    and sub: "sc_submitted w"
    and st: "sc_stat_type w = ''Pass''"
    and oc: "sc_pass_outcome w = ''Complete''"
    and rcv: "sc_receiver w \<in> set (recv_options (read_roster_df sheet) (sc_player_select w))"
    and gl: "sc_pass_goal w"
  shows "\<exists>p a s. SoccerSpec_build_form (read_roster_df sheet) w = Inr [p, a, s] \<and>
           stat_type p = ''Pass'' \<and> player_key p = sc_player_select w \<and>
           outcome p = Some ''Complete'' \<and>
           stat_type a = ''Assist'' \<and> player_key a = sc_player_select w \<and>
           stat_type s = ''Shot'' \<and> player_key s = sc_receiver w \<and>
           on_target s = Some 1 \<and> goal s = Some 1"
proof -
  from pl obtain pr where pr: "lookup_player (read_roster_df sheet) (sc_player_select w) = Inr pr"
    using lookup_player_in by blast
  from rcv have in_r: "sc_receiver w \<in> set (map player_key (read_roster_df sheet))"
    and ne: "sc_receiver w \<noteq> sc_player_select w"
    by (auto simp: recv_options_def)
  from in_r obtain rc where rc: "lookup_player (read_roster_df sheet) (sc_receiver w) = Inr rc"
    "player_key rc = sc_receiver w"
    using lookup_player_in by blast
  from in_r have nonempty: "sc_receiver w \<noteq> []"
    using read_roster_key_hash by fastforce
  show ?thesis
    using pr rc sub st oc gl ne nonempty
    by (simp add: SoccerSpec_build_form_def base_row_def with_player_def truthy_def
        sc_receiver_key_def sc_resulted_goal_def)
qed

theorem soccer_goal_pass_three_events_witness:
  "\<exists>p a s. SoccerSpec_build_form (read_roster_df demo_sheet) demo_sc_pass = Inr [p, a, s] \<and>
     stat_type p = ''Pass'' \<and> player_key p = ''#7 Ann Lee'' \<and>
     outcome p = Some ''Complete'' \<and>
     stat_type a = ''Assist'' \<and> player_key a = ''#7 Ann Lee'' \<and>
     stat_type s = ''Shot'' \<and> player_key s = ''#12 Bo Ray'' \<and>
     on_target s = Some 1 \<and> goal s = Some 1"
proof -
  have "sc_receiver demo_sc_pass
      \<in> set (recv_options (read_roster_df demo_sheet) (sc_player_select demo_sc_pass))"
    by (simp add: recv_options_def demo_roster_keys demo_sc_pass_def)
  moreover have "sc_player_select demo_sc_pass \<in> set (map player_key (read_roster_df demo_sheet))"
    by (simp add: demo_roster_keys demo_sc_pass_def)
  ultimately show ?thesis
    using soccer_goal_pass_three_events [of demo_sc_pass demo_sheet]
    by (simp add: demo_sc_pass_def)
qed

text \<open>
  C3.  Lacrosse: a submitted Goal whose assist select box names a player of the
  assist options (the roster keys other than the scorer's) gives exactly three rows,
  a Goal and an on-target Shot for the scorer and an Assist for the named player;
  with the option "None" it gives exactly the Goal and the Shot.
\<close>

theorem lacrosse_goal_expansion:
  assumes pl: "lc_player_select w \<in> set (map player_key (read_roster_df sheet))"
    and sub: "lc_submitted w"
    and st: "lc_stat_type w = ''Goal''"
  shows "(lc_assist w \<in> set (assist_opts (read_roster_df sheet) (lc_player_select w)) \<longrightarrow>
            (\<exists>g s a. LacrosseSpec_build_form (read_roster_df sheet) w = Inr [g, s, a] \<and>
               stat_type g = ''Goal'' \<and> player_key g = lc_player_select w \<and>
               goal g = Some 1 \<and>
               stat_type s = ''Shot'' \<and> player_key s = lc_player_select w \<and>
               on_target s = Some 1 \<and>
               stat_type a = ''Assist'' \<and> player_key a = lc_assist w)) \<and>
         (lc_assist w = ''None'' \<longrightarrow>
            (\<exists>g s. LacrosseSpec_build_form (read_roster_df sheet) w = Inr [g, s] \<and>
               stat_type g = ''Goal'' \<and> player_key g = lc_player_select w \<and>
               goal g = Some 1 \<and>
               stat_type s = ''Shot'' \<and> player_key s = lc_player_select w \<and>
               on_target s = Some 1))"
proof (intro conjI impI)
  from pl obtain pr where pr: "lookup_player (read_roster_df sheet) (lc_player_select w) = Inr pr"
    using lookup_player_in by blast
  {
    assume a: "lc_assist w \<in> set (assist_opts (read_roster_df sheet) (lc_player_select w))"
    then have in_r: "lc_assist w \<in> set (map player_key (read_roster_df sheet))"
      by (auto simp: assist_opts_def)
    then obtain ar where ar: "lookup_player (read_roster_df sheet) (lc_assist w) = Inr ar"
      "player_key ar = lc_assist w"
      using lookup_player_in by blast
    from in_r obtain t where "lc_assist w = CHR ''#'' # t"
      using read_roster_key_hash by blast
    then have "lc_assist w \<noteq> []" "lc_assist w \<noteq> ''None''" by auto
    with pr ar sub st
    show "\<exists>g s a. LacrosseSpec_build_form (read_roster_df sheet) w = Inr [g, s, a] \<and>
               stat_type g = ''Goal'' \<and> player_key g = lc_player_select w \<and>
               goal g = Some 1 \<and>
               stat_type s = ''Shot'' \<and> player_key s = lc_player_select w \<and>
               on_target s = Some 1 \<and>
               stat_type a = ''Assist'' \<and> player_key a = lc_assist w"
      by (simp add: LacrosseSpec_build_form_def base_row_def with_player_def)
  }
  {
    assume "lc_assist w = ''None''"
    with pr sub st
    show "\<exists>g s. LacrosseSpec_build_form (read_roster_df sheet) w = Inr [g, s] \<and>
               stat_type g = ''Goal'' \<and> player_key g = lc_player_select w \<and>
               goal g = Some 1 \<and>
               stat_type s = ''Shot'' \<and> player_key s = lc_player_select w \<and>
               on_target s = Some 1"
      by (simp add: LacrosseSpec_build_form_def base_row_def)
  }
qed

theorem lacrosse_goal_expansion_witness:
  "(\<exists>g s a. LacrosseSpec_build_form (read_roster_df demo_sheet) demo_lc_goal = Inr [g, s, a] \<and>
      stat_type g = ''Goal'' \<and> player_key g = ''#7 Ann Lee'' \<and> goal g = Some 1 \<and>
      stat_type s = ''Shot'' \<and> player_key s = ''#7 Ann Lee'' \<and> on_target s = Some 1 \<and>
      stat_type a = ''Assist'' \<and> player_key a = ''#12 Bo Ray'') \<and>
   (\<exists>g s. LacrosseSpec_build_form (read_roster_df demo_sheet) demo_lc_goal_unassisted
             = Inr [g, s] \<and>
      stat_type g = ''Goal'' \<and> player_key g = ''#7 Ann Lee'' \<and> goal g = Some 1 \<and>
      stat_type s = ''Shot'' \<and> player_key s = ''#7 Ann Lee'' \<and> on_target s = Some 1)"
proof -
  have a: "lc_assist demo_lc_goal
      \<in> set (assist_opts (read_roster_df demo_sheet) (lc_player_select demo_lc_goal))"
    by (simp add: assist_opts_def demo_roster_keys demo_lc_goal_def)
  have p: "lc_player_select demo_lc_goal \<in> set (map player_key (read_roster_df demo_sheet))"
    by (simp add: demo_roster_keys demo_lc_goal_def)
  have p': "lc_player_select demo_lc_goal_unassisted
      \<in> set (map player_key (read_roster_df demo_sheet))"
    by (simp add: demo_roster_keys demo_lc_goal_def demo_lc_goal_unassisted_def)
  show ?thesis
    using lacrosse_goal_expansion [of demo_lc_goal demo_sheet]
      lacrosse_goal_expansion [of demo_lc_goal_unassisted demo_sheet] a p p'
    by (simp add: demo_lc_goal_def demo_lc_goal_unassisted_def)
qed

text \<open>
  C10.  Soccer: when a submitted completed pass with the resulted-in-goal box checked
  has a recipient key (a non-empty string other than the passer's key) that no
  roster row has, the passer's Assist row is still added after the Pass row and only
  the recipient's Shot row is dropped: exactly two rows, Pass and Assist.
\<close>

theorem soccer_unresolved_recipient_keeps_assist:
  assumes pl: "sc_player_select w \<in> set (map player_key roster)"
    and sub: "sc_submitted w"
    and st: "sc_stat_type w = ''Pass''"
    and oc: "sc_pass_outcome w = ''Complete''"
    and gl: "sc_pass_goal w"
    and key: "sc_receiver w \<noteq> []"
    and ne: "sc_receiver w \<noteq> sc_player_select w"
    and unres: "sc_receiver w \<notin> set (map player_key roster)"
  shows "\<exists>p a. SoccerSpec_build_form roster w = Inr [p, a] \<and>
           stat_type p = ''Pass'' \<and> player_key p = sc_player_select w \<and>
           stat_type a = ''Assist'' \<and> player_key a = sc_player_select w"
proof -
  from pl obtain pr where pr: "lookup_player roster (sc_player_select w) = Inr pr"
    using lookup_player_in by blast
  from unres have rc: "lookup_player roster (sc_receiver w) = Inl IndexError"
    by (rule lookup_player_notin)
  show ?thesis
    using pr rc sub st oc gl ne key
    by (simp add: SoccerSpec_build_form_def base_row_def truthy_def
        sc_receiver_key_def sc_resulted_goal_def)
qed

theorem soccer_unresolved_recipient_keeps_assist_witness:
  "\<exists>p a. SoccerSpec_build_form (read_roster_df solo_sheet) solo_sc_pass = Inr [p, a] \<and>
     stat_type p = ''Pass'' \<and> player_key p = ''#7 Ann Lee'' \<and>
     stat_type a = ''Assist'' \<and> player_key a = ''#7 Ann Lee''"
  using soccer_unresolved_recipient_keeps_assist [of solo_sc_pass "read_roster_df solo_sheet"]
  by (simp add: solo_roster_keys solo_sc_pass_def demo_sc_pass_def)

section \<open>Aggregation: the loop over the groups\<close>

lemma collect_map_Inr:
  assumes "\<forall>x\<in>set xs. f x = Inr (g x)"
  shows "collect (map f xs) = Inr (map g xs)"
  using assms by (induction xs) auto

lemma set_sort_values_names: "set (sort_values_names rows) = set rows"
  by (simp add: sort_values_names_def)

lemma group_rows_nonempty:
  assumes "k \<in> set (map player_key df)"
  shows "group_rows df k \<noteq> []"
  using assms by (auto simp: group_rows_def filter_empty_conv)

text \<open>The loop over the groups, when the body returns a row for every non-empty group.\<close>

lemma grouped_rows:
  assumes "\<And>k grp. grp \<noteq> [] \<Longrightarrow> rowf k grp = Inr (rowv k grp)"
  shows "bind_err (collect (map (\<lambda>(pk, grp). rowf pk grp) (groupby_player_key df)))
           (\<lambda>grouped. Inr (sort_values_names grouped))
         = Inr (sort_values_names
                  (map (\<lambda>k. rowv k (group_rows df k)) (sort (remdups (map player_key df)))))"
proof -
  have "collect (map (\<lambda>(pk, grp). rowf pk grp) (groupby_player_key df))
        = Inr (map (\<lambda>(pk, grp). rowv pk grp) (groupby_player_key df))"
  proof (rule collect_map_Inr, rule ballI)
    fix x assume "x \<in> set (groupby_player_key df)"
    then obtain k where "x = (k, group_rows df k)" "k \<in> set (map player_key df)"
      by (auto simp: groupby_player_key_def)
    then show "(case x of (pk, grp) \<Rightarrow> rowf pk grp) = Inr (case x of (pk, grp) \<Rightarrow> rowv pk grp)"
      using assms group_rows_nonempty by simp
  qed
  then show ?thesis
    by (simp add: bind_err_def groupby_player_key_def o_def)
qed

lemma fb_totals_row_Inr:
  assumes "grp \<noteq> []"
  shows "fb_totals_row k grp = Inr (identity_cols k (hd grp) @ fb_stats grp)"
  using assms by (cases grp) (simp_all add: fb_totals_row_def)

lemma fb_aggregate_eq:
  assumes "''yards'' \<in> set (df_columns logs)" "''touchdown'' \<in> set (df_columns logs)"
    "''outcome'' \<in> set (df_columns logs)"
  shows "FootballSpec_aggregate_totals logs
         = Inr (sort_values_names
                  (map (\<lambda>k. identity_cols k (hd (group_rows (fb_rows logs) k))
                              @ fb_stats (group_rows (fb_rows logs) k))
                     (sort (remdups (map player_key (fb_rows logs))))))"
proof (cases "filter (\<lambda>e. sport e = ''Football'') (df_rows logs) = []")
  case True
  moreover from assms(1) have "df_columns logs \<noteq> []" by auto
  ultimately show ?thesis
    by (simp add: FootballSpec_aggregate_totals_def fb_rows_def sort_values_names_def)
next
  case False
  moreover from assms(1) have "df_columns logs \<noteq> []" by auto
  ultimately show ?thesis
    using assms grouped_rows [of fb_totals_row, OF fb_totals_row_Inr]
    by (simp add: FootballSpec_aggregate_totals_def fb_rows_def Let_def)
qed

lemma fb_normalize_simps [simp]:
  "player_key (fb_normalize e) = player_key e"
  "first_name (fb_normalize e) = first_name e"
  "last_name (fb_normalize e) = last_name e"
  "number (fb_normalize e) = number e"
  "positions (fb_normalize e) = positions e"
  "stat_type (fb_normalize e) = stat_type e"
  "outcome (fb_normalize e) = outcome e"
  "yards (fb_normalize e) = Some (fill0 (yards e))"
  "touchdown (fb_normalize e) = Some (fill0 (touchdown e))"
  by (simp_all add: fb_normalize_def)

lemma fill0_Some [simp]: "fill0 (Some x) = x"
  by (simp add: fill0_def)

lemma fb_group_rows:
  "group_rows (fb_rows logs) k = map fb_normalize (player_events ''Football'' k logs)"
  by (simp add: group_rows_def fb_rows_def player_events_def filter_map o_def conj_commute)

lemma fb_keys:
  "k \<in> set (map player_key (fb_rows logs)) \<longleftrightarrow> player_events ''Football'' k logs \<noteq> []"
  by (auto simp: fb_rows_def player_events_def filter_empty_conv)

lemma col_str_identity:
  "col_str (identity_cols k e0 @ stats) ''player_key'' = k"
  by (simp add: col_str_def identity_cols_def)

lemma fb_stats_formulas:
  "football_formulas evs (identity_cols k e0 @ fb_stats (map fb_normalize evs))"
  by (simp add: football_formulas_def col_def identity_cols_def fb_stats_def Let_def
      sum_where_def count_where_def filter_map o_def conj_ac)

lemma distinct_map_sort_key:
  "distinct (map f (sort_key g xs)) \<longleftrightarrow> distinct (map f xs)"
proof -
  have "mset (map f (sort_key g xs)) = mset (map f xs)" by simp
  then show ?thesis by (rule mset_eq_imp_distinct_iff)
qed

section \<open>Football totals\<close>

text \<open>
  C5.  For a log with the columns \<open>yards\<close>, \<open>touchdown\<close> and \<open>outcome\<close> (every
  log of a game has them) the Football aggregation returns one row for each player
  with Football events and no other row, and in the row of a player FG Attempt Yards
  (Total) is the sum of the yards of all the player's Field Goal events whatever
  their outcome, Pass Yards and Passing TDs count only Pass events whose outcome is
  Complete, Defensive TDs counts the Interception and Return events with touchdown
  1, and Touchdowns (Total) is the sum of Receiving, Rushing, Passing and Defensive
  TDs.
\<close>

theorem football_totals_formulas:
  assumes cols: "''yards'' \<in> set (df_columns logs)" "''touchdown'' \<in> set (df_columns logs)"
    "''outcome'' \<in> set (df_columns logs)"
  shows "\<exists>totals. FootballSpec_aggregate_totals logs = Inr totals \<and>
           distinct (map (\<lambda>r. col_str r ''player_key'') totals) \<and>
           (\<forall>k. (\<exists>r\<in>set totals. col_str r ''player_key'' = k)
                 \<longleftrightarrow> player_events ''Football'' k logs \<noteq> []) \<and>
           (\<forall>r\<in>set totals.
              football_formulas (player_events ''Football'' (col_str r ''player_key'') logs) r)"
proof -
  define rowK where "rowK = (\<lambda>k. identity_cols k (hd (group_rows (fb_rows logs) k))
                              @ fb_stats (group_rows (fb_rows logs) k))"
  define keys where "keys = sort (remdups (map player_key (fb_rows logs)))"
  define totals where "totals = sort_values_names (map rowK keys)"
  have res: "FootballSpec_aggregate_totals logs = Inr totals"
    using fb_aggregate_eq [OF cols] by (simp add: totals_def rowK_def keys_def)
  have key_of: "col_str (rowK k) ''player_key'' = k" for k
    by (simp add: rowK_def col_str_identity)
  have set_totals: "set totals = rowK ` set keys"
    by (simp add: totals_def set_sort_values_names)
  have keys_iff: "k \<in> set keys \<longleftrightarrow> player_events ''Football'' k logs \<noteq> []" for k
    using fb_keys [of k logs] by (simp add: keys_def)
  have "map (\<lambda>r. col_str r ''player_key'') (map rowK keys) = keys"
    by (simp add: o_def key_of)
  then have dist: "distinct (map (\<lambda>r. col_str r ''player_key'') totals)"
    unfolding totals_def sort_values_names_def distinct_map_sort_key
    by (simp add: keys_def)
  have cover: "(\<exists>r\<in>set totals. col_str r ''player_key'' = k)
                 \<longleftrightarrow> player_events ''Football'' k logs \<noteq> []" for k
    using keys_iff [of k] by (auto simp: set_totals key_of)
  have form: "football_formulas (player_events ''Football'' (col_str r ''player_key'') logs) r"
    if "r \<in> set totals" for r
  proof -
    from that obtain k where k: "r = rowK k" by (auto simp: set_totals)
    show ?thesis
      unfolding k key_of
      by (simp add: rowK_def fb_group_rows fb_stats_formulas)
  qed
  from res dist cover form show ?thesis by blast
qed

theorem football_totals_formulas_witness:
  "\<exists>totals. FootballSpec_aggregate_totals demo_fb_logs = Inr totals \<and>
     (\<exists>r. r \<in> set totals \<and> col_str r ''player_key'' = ''#12 Bo Ray'' \<and>
        col r ''FG Attempt Yards (Total)'' = Some (CInt 75) \<and>
        col r ''Touchdowns (Total)'' = Some (CInt 1)) \<and>
     (\<exists>r. r \<in> set totals \<and> col_str r ''player_key'' = ''#7 Ann Lee'' \<and>
        col r ''Pass Yards'' = Some (CInt 20) \<and>
        col r ''Passing TDs'' = Some (CInt 1) \<and>
        col r ''Defensive TDs'' = Some (CInt 1) \<and>
        col r ''Touchdowns (Total)'' = Some (CInt 2))"
proof -
  have cols: "''yards'' \<in> set (df_columns demo_fb_logs)"
    "''touchdown'' \<in> set (df_columns demo_fb_logs)"
    "''outcome'' \<in> set (df_columns demo_fb_logs)"
    by (simp_all add: demo_fb_logs_def concat_rows_def new_game_logs_def new_game_columns_def)
  from football_totals_formulas [OF cols] obtain totals where
    res: "FootballSpec_aggregate_totals demo_fb_logs = Inr totals"
    and cover: "\<And>k. (\<exists>r\<in>set totals. col_str r ''player_key'' = k)
                 \<longleftrightarrow> player_events ''Football'' k demo_fb_logs \<noteq> []"
    and form: "\<And>r. r \<in> set totals \<Longrightarrow>
       football_formulas (player_events ''Football'' (col_str r ''player_key'') demo_fb_logs) r"
    by blast
  have "player_events ''Football'' ''#12 Bo Ray'' demo_fb_logs \<noteq> []" by code_simp
  with cover obtain rb where rb: "rb \<in> set totals" "col_str rb ''player_key'' = ''#12 Bo Ray''"
    by blast
  have "player_events ''Football'' ''#7 Ann Lee'' demo_fb_logs \<noteq> []" by code_simp
  with cover obtain ra where ra: "ra \<in> set totals" "col_str ra ''player_key'' = ''#7 Ann Lee''"
    by blast
  note ev = football_formulas_def Let_def player_events_def demo_fb_logs_def concat_rows_def
    new_game_logs_def demo_fb_rows_def demo_event_def fill0_def
  from form [OF rb(1)]
  have fb: "col rb ''FG Attempt Yards (Total)'' = Some (CInt 75) \<and>
            col rb ''Touchdowns (Total)'' = Some (CInt 1)"
    unfolding rb(2) by (simp add: ev)
  from form [OF ra(1)]
  have fa: "col ra ''Pass Yards'' = Some (CInt 20) \<and>
            col ra ''Passing TDs'' = Some (CInt 1) \<and>
            col ra ''Defensive TDs'' = Some (CInt 1) \<and>
            col ra ''Touchdowns (Total)'' = Some (CInt 2)"
    unfolding ra(2) by (simp add: ev)
  from res ra rb fa fb show ?thesis by blast
qed

section \<open>Order of the log\<close>

lemma count_where_mset: "count_where P xs = int (size (filter_mset P (mset xs)))"
  by (simp add: count_where_def flip: mset_filter)

lemma sum_where_mset: "sum_where f P xs = sum_mset (image_mset f (filter_mset P (mset xs)))"
  by (simp add: sum_where_def flip: mset_filter mset_map sum_mset_sum_list)

lemma length_as_size: "length xs = size (mset xs)"
  by simp

lemma fb_stats_perm:
  assumes "mset ga = mset gb"
  shows "fb_stats ga = fb_stats gb"
  unfolding fb_stats_def Let_def count_where_mset sum_where_mset length_as_size mset_filter
  by (simp only: assms)

lemma sort_remdups_cong:
  assumes "set xs = set ys"
  shows "sort (remdups xs) = sort (remdups ys)"
  using assms by (metis sorted_list_of_set_sort_remdups)

text \<open>Two groups with the same rows in another order give the same identity columns.\<close>

lemma identity_cols_perm:
  assumes m: "mset (a # as) = mset (b # bs)"
    and same: "\<forall>e\<in>set (a # as). \<forall>e'\<in>set (a # as).
                 first_name e = first_name e' \<and> last_name e = last_name e' \<and>
                 number e = number e' \<and> positions e = positions e'"
  shows "identity_cols k a = identity_cols k b"
proof -
  from m have "set (a # as) = set (b # bs)" by (rule mset_eq_setD)
  then have "b \<in> set (a # as)" by auto
  moreover have "a \<in> set (a # as)" by simp
  ultimately have "first_name a = first_name b \<and> last_name a = last_name b \<and>
                 number a = number b \<and> positions a = positions b"
    using same [rule_format, of a b] by simp
  then show ?thesis by (simp add: identity_cols_def)
qed

text \<open>The loop over the groups of two frames with the same rows.\<close>

lemma grouped_perm:
  assumes m: "mset A = mset B"
    and row: "\<And>k. k \<in> set (map player_key A)
                \<Longrightarrow> rowf k (group_rows A k) = rowf k (group_rows B k)"
  shows "map (\<lambda>(pk, grp). rowf pk grp) (groupby_player_key A)
         = map (\<lambda>(pk, grp). rowf pk grp) (groupby_player_key B)"
proof -
  from m have "set A = set B" by (rule mset_eq_setD)
  then have keys: "sort (remdups (map player_key A)) = sort (remdups (map player_key B))"
    by (intro sort_remdups_cong) simp
  show ?thesis
    unfolding groupby_player_key_def keys [symmetric]
    by (simp add: o_def row)
qed

lemma group_rows_mset:
  assumes "mset A = mset B"
  shows "mset (group_rows A k) = mset (group_rows B k)"
  using assms by (simp add: group_rows_def)

lemma identity_consistent_group:
  assumes ic: "identity_consistent rows"
    and src: "\<And>e. e \<in> set A \<Longrightarrow> \<exists>e0\<in>set rows. sport e0 = sp \<and> player_key e0 = player_key e \<and>
           first_name e0 = first_name e \<and> last_name e0 = last_name e \<and>
           number e0 = number e \<and> positions e0 = positions e"
  shows "\<forall>e\<in>set (group_rows A k). \<forall>e'\<in>set (group_rows A k).
           first_name e = first_name e' \<and> last_name e = last_name e' \<and>
           number e = number e' \<and> positions e = positions e'"
proof (intro ballI)
  fix e e' assume "e \<in> set (group_rows A k)" "e' \<in> set (group_rows A k)"
  then have e: "e \<in> set A" "player_key e = k" and e': "e' \<in> set A" "player_key e' = k"
    by (auto simp: group_rows_def)
  from src [OF e(1)] obtain e0 where e0: "e0 \<in> set rows" "sport e0 = sp"
    "player_key e0 = player_key e"
    "first_name e0 = first_name e" "last_name e0 = last_name e"
    "number e0 = number e" "positions e0 = positions e" by (elim bexE conjE)
  from src [OF e'(1)] obtain e1 where e1: "e1 \<in> set rows" "sport e1 = sp"
    "player_key e1 = player_key e'"
    "first_name e1 = first_name e'" "last_name e1 = last_name e'"
    "number e1 = number e'" "positions e1 = positions e'" by (elim bexE conjE)
  have "sport e0 = sport e1 \<and> player_key e0 = player_key e1"
    using e0(2,3) e1(2,3) e(2) e'(2) by simp
  then
  have "first_name e0 = first_name e1 \<and> last_name e0 = last_name e1 \<and>
        number e0 = number e1 \<and> positions e0 = positions e1"
    using ic [unfolded identity_consistent_def, rule_format, OF e0(1) e1(1)] by simp
  with e0 e1 show "first_name e = first_name e' \<and> last_name e = last_name e' \<and>
           number e = number e' \<and> positions e = positions e'" by simp
qed

text \<open>
  The rows built for the groups of one sport do not depend on the order of the log:
  the statistics of a group are functions of its rows as a multiset, and the identity
  columns are those of any of its rows.
\<close>

lemma sport_rows_perm:
  assumes m: "mset rows' = mset rows" and ic: "identity_consistent rows"
    and nrm: "\<And>e. player_key (nrm e) = player_key e \<and> first_name (nrm e) = first_name e \<and>
                last_name (nrm e) = last_name e \<and> number (nrm e) = number e \<and>
                positions (nrm e) = positions e"
    and stats: "\<And>ga gb. mset ga = mset gb \<Longrightarrow> statsf ga = statsf gb"
    and row_Nil: "\<And>k. rowf k [] = Inl IndexError"
    and row_Cons: "\<And>k e0 rest. rowf k (e0 # rest)
                     = bind_err (statsf (e0 # rest)) (\<lambda>st. Inr (identity_cols k e0 @ st))"
  shows "map (\<lambda>(pk, grp). rowf pk grp)
           (groupby_player_key (map nrm (filter (\<lambda>e. sport e = sp) rows')))
         = map (\<lambda>(pk, grp). rowf pk grp)
             (groupby_player_key (map nrm (filter (\<lambda>e. sport e = sp) rows)))"
proof -
  define A where "A = map nrm (filter (\<lambda>e. sport e = sp) rows)"
  define B where "B = map nrm (filter (\<lambda>e. sport e = sp) rows')"
  have mf: "mset (filter (\<lambda>e. sport e = sp) rows') = mset (filter (\<lambda>e. sport e = sp) rows)"
    using m by simp
  have mAB: "mset A = mset B" unfolding A_def B_def mset_map mf ..
  have src: "\<exists>e0\<in>set rows. sport e0 = sp \<and> player_key e0 = player_key e \<and>
           first_name e0 = first_name e \<and> last_name e0 = last_name e \<and>
           number e0 = number e \<and> positions e0 = positions e" if "e \<in> set A" for e
  proof -
    from that obtain e0 where e0: "e0 \<in> set rows" "sport e0 = sp" "e = nrm e0"
      by (auto simp: A_def)
    then show ?thesis using nrm [of e0] by (intro bexI [of _ e0]) simp_all
  qed
  have "map (\<lambda>(pk, grp). rowf pk grp) (groupby_player_key A)
        = map (\<lambda>(pk, grp). rowf pk grp) (groupby_player_key B)"
    using mAB
  proof (rule grouped_perm)
    fix k
    have mg: "mset (group_rows A k) = mset (group_rows B k)"
      using mAB by (rule group_rows_mset)
    have same: "\<forall>e\<in>set (group_rows A k). \<forall>e'\<in>set (group_rows A k).
           first_name e = first_name e' \<and> last_name e = last_name e' \<and>
           number e = number e' \<and> positions e = positions e'"
      using ic src by (rule identity_consistent_group)
    show "rowf k (group_rows A k) = rowf k (group_rows B k)"
    proof (cases "group_rows A k")
      case Nil
      with mg show ?thesis by simp
    next
      case (Cons a as)
      with mg obtain b bs where gb: "group_rows B k = b # bs"
        by (cases "group_rows B k") auto
      have "identity_cols k a = identity_cols k b"
        using identity_cols_perm mg same unfolding Cons gb by blast
      moreover have "statsf (a # as) = statsf (b # bs)"
        using mg unfolding Cons gb by (rule stats)
      ultimately show ?thesis by (simp add: row_Cons Cons gb)
    qed
  qed
  then show ?thesis by (simp add: A_def B_def)
qed

lemma sport_empty_perm:
  assumes "mset rows' = mset rows"
  shows "(filter (\<lambda>e. sport e = sp) rows' = []) = (filter (\<lambda>e. sport e = sp) rows = [])"
proof -
  from assms have "set rows' = set rows" by (rule mset_eq_setD)
  then show ?thesis by (simp add: filter_empty_conv)
qed

lemma football_perm:
  assumes m: "mset rows' = mset rows" and ic: "identity_consistent rows"
  shows "FootballSpec_aggregate_totals \<lparr> df_columns = cols, df_rows = rows' \<rparr>
         = FootballSpec_aggregate_totals \<lparr> df_columns = cols, df_rows = rows \<rparr>"
proof -
  have "map (\<lambda>(pk, grp). fb_totals_row pk grp)
           (groupby_player_key (map fb_normalize (filter (\<lambda>e. sport e = ''Football'') rows')))
         = map (\<lambda>(pk, grp). fb_totals_row pk grp)
             (groupby_player_key (map fb_normalize (filter (\<lambda>e. sport e = ''Football'') rows)))"
    using m ic
  proof (rule sport_rows_perm [where statsf = "\<lambda>g. Inr (fb_stats g)"])
    show "Inr (fb_stats ga) = Inr (fb_stats gb)" if "mset ga = mset gb" for ga gb
      by (simp only: fb_stats_perm [OF that])
  qed (simp_all add: fb_totals_row_def bind_err_def)
  then show ?thesis
    by (simp only: FootballSpec_aggregate_totals_def Let_def logs_df.select_convs
        sport_empty_perm [OF m, of "''Football''"])
qed

lemma sc_normalize_simps [simp]:
  "player_key (sc_normalize e) = player_key e"
  "first_name (sc_normalize e) = first_name e"
  "last_name (sc_normalize e) = last_name e"
  "number (sc_normalize e) = number e"
  "positions (sc_normalize e) = positions e"
  "stat_type (sc_normalize e) = stat_type e"
  "outcome (sc_normalize e) = outcome e"
  by (simp_all add: sc_normalize_def)

lemma lc_normalize_simps [simp]:
  "player_key (lc_normalize e) = player_key e"
  "first_name (lc_normalize e) = first_name e"
  "last_name (lc_normalize e) = last_name e"
  "number (lc_normalize e) = number e"
  "positions (lc_normalize e) = positions e"
  "stat_type (lc_normalize e) = stat_type e"
  "outcome (lc_normalize e) = outcome e"
  by (simp_all add: lc_normalize_def)

lemma sc_stats_perm:
  assumes "mset ga = mset gb"
  shows "sc_stats ga = sc_stats gb"
  unfolding sc_stats_def Let_def count_where_mset sum_where_mset length_as_size mset_filter
  by (simp only: assms)

lemma nonempty_as_mset: "xs \<noteq> [] \<longleftrightarrow> mset xs \<noteq> {#}"
  by simp

lemma lc_stats_perm:
  assumes "mset ga = mset gb"
  shows "lc_stats ga = lc_stats gb"
  unfolding lc_stats_def Let_def count_where_mset sum_where_mset length_as_size
    nonempty_as_mset mset_filter
  by (simp only: assms)

lemma soccer_perm:
  assumes m: "mset rows' = mset rows" and ic: "identity_consistent rows"
  shows "SoccerSpec_aggregate_totals \<lparr> df_columns = cols, df_rows = rows' \<rparr>
         = SoccerSpec_aggregate_totals \<lparr> df_columns = cols, df_rows = rows \<rparr>"
proof -
  have "map (\<lambda>(pk, grp). sc_totals_row pk grp)
           (groupby_player_key (map sc_normalize (filter (\<lambda>e. sport e = ''Soccer'') rows')))
         = map (\<lambda>(pk, grp). sc_totals_row pk grp)
             (groupby_player_key (map sc_normalize (filter (\<lambda>e. sport e = ''Soccer'') rows)))"
    using m ic
  proof (rule sport_rows_perm [where statsf = sc_stats])
    show "sc_stats ga = sc_stats gb" if "mset ga = mset gb" for ga gb
      using that by (rule sc_stats_perm)
  qed (simp_all add: sc_totals_row_def)
  then show ?thesis
    by (simp only: SoccerSpec_aggregate_totals_def Let_def logs_df.select_convs
        sport_empty_perm [OF m, of "''Soccer''"])
qed

lemma lacrosse_perm:
  assumes m: "mset rows' = mset rows" and ic: "identity_consistent rows"
  shows "LacrosseSpec_aggregate_totals \<lparr> df_columns = cols, df_rows = rows' \<rparr>
         = LacrosseSpec_aggregate_totals \<lparr> df_columns = cols, df_rows = rows \<rparr>"
proof -
  have "map (\<lambda>(pk, grp). lc_totals_row pk grp)
           (groupby_player_key (map lc_normalize (filter (\<lambda>e. sport e = ''Lacrosse'') rows')))
         = map (\<lambda>(pk, grp). lc_totals_row pk grp)
             (groupby_player_key (map lc_normalize (filter (\<lambda>e. sport e = ''Lacrosse'') rows)))"
    using m ic
  proof (rule sport_rows_perm [where statsf = lc_stats])
    show "lc_stats ga = lc_stats gb" if "mset ga = mset gb" for ga gb
      using that by (rule lc_stats_perm)
  qed (simp_all add: lc_totals_row_def)
  then show ?thesis
    by (simp only: LacrosseSpec_aggregate_totals_def Let_def logs_df.select_convs
        sport_empty_perm [OF m, of "''Lacrosse''"])
qed

text \<open>
  C7, as amended.  When all rows of one sport with the same player key carry the
  same identity columns, the Football and the Soccer aggregation return the same
  totals (the same rows with the same values in the same order) for every
  permutation of the log's rows, and so does the Lacrosse aggregation in every
  column but the sums of floats (Penalty Minutes, Minutes) and GAA, which is
  computed from one; the aggregation of the sports without an implementation
  returns the empty table for both.
\<close>

theorem totals_order_independent:
  assumes m: "mset rows' = mset rows" and ic: "identity_consistent rows"
  shows "FootballSpec_aggregate_totals \<lparr> df_columns = cols, df_rows = rows' \<rparr>
           = FootballSpec_aggregate_totals \<lparr> df_columns = cols, df_rows = rows \<rparr> \<and>
         SoccerSpec_aggregate_totals \<lparr> df_columns = cols, df_rows = rows' \<rparr>
           = SoccerSpec_aggregate_totals \<lparr> df_columns = cols, df_rows = rows \<rparr> \<and>
         map_sum id (map (drop_cols lc_float_sum_cols))
             (LacrosseSpec_aggregate_totals \<lparr> df_columns = cols, df_rows = rows' \<rparr>)
           = map_sum id (map (drop_cols lc_float_sum_cols))
               (LacrosseSpec_aggregate_totals \<lparr> df_columns = cols, df_rows = rows \<rparr>) \<and>
         BaseballSpec_aggregate_totals \<lparr> df_columns = cols, df_rows = rows' \<rparr>
           = BaseballSpec_aggregate_totals \<lparr> df_columns = cols, df_rows = rows \<rparr> \<and>
         BasketballSpec_aggregate_totals \<lparr> df_columns = cols, df_rows = rows' \<rparr>
           = BasketballSpec_aggregate_totals \<lparr> df_columns = cols, df_rows = rows \<rparr>"
  using football_perm [OF m ic, of cols] soccer_perm [OF m ic, of cols]
    lacrosse_perm [OF m ic, of cols]
  by (simp add: SportSpec_aggregate_totals_def BaseballSpec_aggregate_totals_def
      BasketballSpec_aggregate_totals_def)

text \<open>
  The hypothesis is needed: the identity columns of a totals row are those of the
  group's first row, so two rows with one key and different positions give
  different totals in the two orders.
\<close>

theorem totals_order_independent_counterexample:
  "mset (rev clash_rows) = mset clash_rows \<and>
   FootballSpec_aggregate_totals \<lparr> df_columns = new_game_columns, df_rows = rev clash_rows \<rparr>
     \<noteq> FootballSpec_aggregate_totals \<lparr> df_columns = new_game_columns, df_rows = clash_rows \<rparr>"
proof
  show "mset (rev clash_rows) = mset clash_rows" by simp
  show "FootballSpec_aggregate_totals \<lparr> df_columns = new_game_columns, df_rows = rev clash_rows \<rparr>
     \<noteq> FootballSpec_aggregate_totals \<lparr> df_columns = new_game_columns, df_rows = clash_rows \<rparr>"
    by code_simp
qed

theorem totals_order_independent_witness:
  "mset (rev demo_fb_rows) = mset demo_fb_rows \<and> identity_consistent demo_fb_rows \<and>
   rev demo_fb_rows \<noteq> demo_fb_rows \<and>
   FootballSpec_aggregate_totals \<lparr> df_columns = new_game_columns, df_rows = rev demo_fb_rows \<rparr>
     = FootballSpec_aggregate_totals \<lparr> df_columns = new_game_columns, df_rows = demo_fb_rows \<rparr>"
proof -
  have m: "mset (rev demo_fb_rows) = mset demo_fb_rows" by simp
  have ic: "identity_consistent demo_fb_rows" by code_simp
  have ne: "rev demo_fb_rows \<noteq> demo_fb_rows" by code_simp
  show ?thesis
    using totals_order_independent [OF m ic, of new_game_columns] m ic ne by blast
qed

section \<open>Ratio columns\<close>

lemma pct_eq:
  "pct a b = Inr (if b \<noteq> 0 then py_round 1 (100 * of_int a / of_int b) else 0)"
  by (simp add: pct_def py_truediv_def bind_err_def)

lemma gaa_eq:
  "gaa g m = Inr (if 0 < m then py_round 2 (of_int (g * 48) / m) else 0)"
  by (simp add: gaa_def py_truediv_def bind_err_def)

lemma sc_stats_Inr: "sc_stats grp = Inr (projr (sc_stats grp))"
  by (simp add: sc_stats_def Let_def pct_eq bind_err_def)

lemma lc_stats_Inr: "lc_stats grp = Inr (projr (lc_stats grp))"
  by (simp add: lc_stats_def Let_def pct_eq gaa_eq bind_err_def)

lemma sc_totals_row_Inr:
  assumes "grp \<noteq> []"
  shows "sc_totals_row k grp = Inr (identity_cols k (hd grp) @ projr (sc_stats grp))"
proof -
  from assms obtain e0 rest where grp: "grp = e0 # rest" by (cases grp) auto
  obtain st where st: "sc_stats grp = Inr st" using sc_stats_Inr by blast
  show ?thesis
    using st unfolding grp by (simp add: sc_totals_row_def bind_err_def)
qed

lemma lc_totals_row_Inr:
  assumes "grp \<noteq> []"
  shows "lc_totals_row k grp = Inr (identity_cols k (hd grp) @ projr (lc_stats grp))"
proof -
  from assms obtain e0 rest where grp: "grp = e0 # rest" by (cases grp) auto
  obtain st where st: "lc_stats grp = Inr st" using lc_stats_Inr by blast
  show ?thesis
    using st unfolding grp by (simp add: lc_totals_row_def bind_err_def)
qed

text \<open>
  What \<open>SoccerSpec.aggregate_totals\<close> returns: no row for a log without Soccer
  rows, an exception for a missing column, and otherwise one row per player.
\<close>

lemma sc_aggregate_cases:
  "SoccerSpec_aggregate_totals logs = Inr [] \<or>
   SoccerSpec_aggregate_totals logs = Inl (KeyError ''sport'') \<or>
   SoccerSpec_aggregate_totals logs = Inl AttributeError \<or>
   SoccerSpec_aggregate_totals logs = Inl (KeyError ''outcome'') \<or>
   SoccerSpec_aggregate_totals logs
     = Inr (sort_values_names
              (map (\<lambda>k. identity_cols k (hd (group_rows (sc_rows logs) k))
                          @ projr (sc_stats (group_rows (sc_rows logs) k)))
                 (sort (remdups (map player_key (sc_rows logs))))))"
  using grouped_rows [of sc_totals_row, OF sc_totals_row_Inr]
  by (simp add: SoccerSpec_aggregate_totals_def sc_rows_def Let_def)

lemma lc_aggregate_cases:
  "LacrosseSpec_aggregate_totals logs = Inr [] \<or>
   LacrosseSpec_aggregate_totals logs = Inl (KeyError ''sport'') \<or>
   LacrosseSpec_aggregate_totals logs = Inl AttributeError \<or>
   LacrosseSpec_aggregate_totals logs = Inl (KeyError ''outcome'') \<or>
   LacrosseSpec_aggregate_totals logs
     = Inr (sort_values_names
              (map (\<lambda>k. identity_cols k (hd (group_rows (lc_rows logs) k))
                          @ projr (lc_stats (group_rows (lc_rows logs) k)))
                 (sort (remdups (map player_key (lc_rows logs))))))"
  using grouped_rows [of lc_totals_row, OF lc_totals_row_Inr]
  by (simp add: LacrosseSpec_aggregate_totals_def lc_rows_def Let_def)

lemma sc_row_shape:
  assumes "SoccerSpec_aggregate_totals logs = Inr totals" and "r \<in> set totals"
  shows "\<exists>k e0 grp. r = identity_cols k e0 @ projr (sc_stats grp)"
proof -
  from sc_aggregate_cases [of logs] assms
  have "r \<in> set (map (\<lambda>k. identity_cols k (hd (group_rows (sc_rows logs) k))
                          @ projr (sc_stats (group_rows (sc_rows logs) k)))
                 (sort (remdups (map player_key (sc_rows logs)))))"
    by (auto simp: set_sort_values_names)
  then obtain k where "r = identity_cols k (hd (group_rows (sc_rows logs) k))
                          @ projr (sc_stats (group_rows (sc_rows logs) k))"
    by auto
  then show ?thesis by blast
qed

lemma lc_row_shape:
  assumes "LacrosseSpec_aggregate_totals logs = Inr totals" and "r \<in> set totals"
  shows "\<exists>k e0 grp. r = identity_cols k e0 @ projr (lc_stats grp)"
proof -
  from lc_aggregate_cases [of logs] assms
  have "r \<in> set (map (\<lambda>k. identity_cols k (hd (group_rows (lc_rows logs) k))
                          @ projr (lc_stats (group_rows (lc_rows logs) k)))
                 (sort (remdups (map player_key (lc_rows logs)))))"
    by (auto simp: set_sort_values_names)
  then obtain k where "r = identity_cols k (hd (group_rows (lc_rows logs) k))
                          @ projr (lc_stats (group_rows (lc_rows logs) k))"
    by auto
  then show ?thesis by blast
qed

lemma sc_stats_guard: "sc_ratio_guard (identity_cols k e0 @ projr (sc_stats grp))"
  by (simp add: sc_ratio_guard_def is_number_def sc_stats_def Let_def pct_eq bind_err_def
      col_def identity_cols_def)

lemma lc_stats_guard: "lc_ratio_guard (identity_cols k e0 @ projr (lc_stats grp))"
  by (simp add: lc_ratio_guard_def is_number_def lc_stats_def Let_def pct_eq gaa_eq
      bind_err_def col_def identity_cols_def)

text \<open>
  C4.  Every ratio column of every row the Soccer and the Lacrosse aggregation
  return is a number, and is exactly 0 when the column it divides by is 0: Pass
  Completion % by Passes Attempted, Faceoff % by Faceoffs Attempted, Save % by Shots
  on Goal Faced, GAA by Minutes, Shooting % by Shots on Goal and SOG Rate % by Shots.
  Computing a ratio never raises: \<open>pct\<close> and \<open>gaa\<close> always return a value, and
  neither aggregation ends in ZeroDivisionError.
\<close>

theorem ratio_columns_zero_denominator:
  "(SoccerSpec_aggregate_totals logs = Inr totals \<and> r \<in> set totals \<longrightarrow> sc_ratio_guard r) \<and>
   (LacrosseSpec_aggregate_totals logs = Inr totals \<and> r \<in> set totals \<longrightarrow> lc_ratio_guard r) \<and>
   SoccerSpec_aggregate_totals logs \<noteq> Inl ZeroDivisionError \<and>
   LacrosseSpec_aggregate_totals logs \<noteq> Inl ZeroDivisionError \<and>
   (\<exists>q. pct a b = Inr q) \<and> pct a 0 = Inr 0 \<and>
   (\<exists>q. gaa g m = Inr q) \<and> gaa g 0 = Inr 0"
proof (intro conjI impI)
  show "sc_ratio_guard r"
    if "SoccerSpec_aggregate_totals logs = Inr totals \<and> r \<in> set totals"
    using that sc_row_shape sc_stats_guard by blast
  show "lc_ratio_guard r"
    if "LacrosseSpec_aggregate_totals logs = Inr totals \<and> r \<in> set totals"
    using that lc_row_shape lc_stats_guard by blast
  show "SoccerSpec_aggregate_totals logs \<noteq> Inl ZeroDivisionError"
    using sc_aggregate_cases [of logs] by auto
  show "LacrosseSpec_aggregate_totals logs \<noteq> Inl ZeroDivisionError"
    using lc_aggregate_cases [of logs] by auto
qed (simp_all add: pct_eq gaa_eq)

theorem ratio_columns_zero_denominator_witness:
  "(\<exists>totals r. SoccerSpec_aggregate_totals demo_sc_logs = Inr totals \<and> r \<in> set totals \<and>
      col r ''Passes Attempted'' = Some (CInt 0) \<and>
      col r ''Pass Completion %'' = Some (CFloat 0)) \<and>
   (\<exists>totals r. LacrosseSpec_aggregate_totals demo_lc_logs = Inr totals \<and> r \<in> set totals \<and>
      col r ''Minutes'' = Some (CFloat 0) \<and> col r ''GAA'' = Some (CFloat 0) \<and>
      col r ''Shots on Goal'' = Some (CInt 0) \<and> col r ''Shooting %'' = Some (CFloat 0))"
proof -
  let ?sc = "projr (SoccerSpec_aggregate_totals demo_sc_logs)"
  let ?lc = "projr (LacrosseSpec_aggregate_totals demo_lc_logs)"
  have sc: "SoccerSpec_aggregate_totals demo_sc_logs = Inr ?sc" by code_simp
  have lc: "LacrosseSpec_aggregate_totals demo_lc_logs = Inr ?lc" by code_simp
  have sc_in: "hd ?sc \<in> set ?sc" by code_simp
  have lc_in: "hd ?lc \<in> set ?lc" by code_simp
  have sc0: "col (hd ?sc) ''Passes Attempted'' = Some (CInt 0)" by code_simp
  have lc0: "col (hd ?lc) ''Minutes'' = Some (CFloat 0)"
    "col (hd ?lc) ''Shots on Goal'' = Some (CInt 0)" by code_simp+
  have g1: "sc_ratio_guard (hd ?sc)"
    using ratio_columns_zero_denominator [of demo_sc_logs ?sc "hd ?sc"] sc sc_in by blast
  have g2: "lc_ratio_guard (hd ?lc)"
    using ratio_columns_zero_denominator [of demo_lc_logs ?lc "hd ?lc"] lc lc_in by blast
  from g1 sc0 have sc1: "col (hd ?sc) ''Pass Completion %'' = Some (CFloat 0)"
    by (simp add: sc_ratio_guard_def)
  from g2 lc0 have lc1: "col (hd ?lc) ''GAA'' = Some (CFloat 0)"
    "col (hd ?lc) ''Shooting %'' = Some (CFloat 0)"
    by (simp_all add: lc_ratio_guard_def)
  show ?thesis
  proof (intro conjI)
    show "\<exists>totals r. SoccerSpec_aggregate_totals demo_sc_logs = Inr totals \<and> r \<in> set totals \<and>
      col r ''Passes Attempted'' = Some (CInt 0) \<and>
      col r ''Pass Completion %'' = Some (CFloat 0)"
      using sc sc_in sc0 sc1 by blast
    show "\<exists>totals r. LacrosseSpec_aggregate_totals demo_lc_logs = Inr totals \<and> r \<in> set totals \<and>
      col r ''Minutes'' = Some (CFloat 0) \<and> col r ''GAA'' = Some (CFloat 0) \<and>
      col r ''Shots on Goal'' = Some (CInt 0) \<and> col r ''Shooting %'' = Some (CFloat 0)"
      using lc lc_in lc0 lc1 by blast
  qed
qed

section \<open>Empty and mismatched logs\<close>

lemma no_sport_rows:
  assumes "\<forall>e\<in>set rows. sport e \<noteq> sp"
  shows "filter (\<lambda>e. sport e = sp) rows = []"
  using assms by (simp add: filter_empty_conv)

text \<open>
  C6, as amended.  Applied to a log (a frame that has the column \<open>sport\<close>, as the
  log of every created game has) without rows, or none of whose rows is of its
  sport, each of the Football, Soccer and Lacrosse aggregations returns the empty
  totals table and does not raise; the aggregation Baseball and Basketball inherit
  returns the empty table for every frame.
\<close>

theorem aggregate_tolerates_empty_and_mismatched:
  "(''sport'' \<in> set (df_columns logs) \<and> df_rows logs = [] \<longrightarrow>
      FootballSpec_aggregate_totals logs = Inr [] \<and>
      SoccerSpec_aggregate_totals logs = Inr [] \<and>
      LacrosseSpec_aggregate_totals logs = Inr []) \<and>
   (''sport'' \<in> set (df_columns logs) \<and> (\<forall>e\<in>set (df_rows logs). sport e \<noteq> ''Football'')
      \<longrightarrow> FootballSpec_aggregate_totals logs = Inr []) \<and>
   (''sport'' \<in> set (df_columns logs) \<and> (\<forall>e\<in>set (df_rows logs). sport e \<noteq> ''Soccer'')
      \<longrightarrow> SoccerSpec_aggregate_totals logs = Inr []) \<and>
   (''sport'' \<in> set (df_columns logs) \<and> (\<forall>e\<in>set (df_rows logs). sport e \<noteq> ''Lacrosse'')
      \<longrightarrow> LacrosseSpec_aggregate_totals logs = Inr []) \<and>
   BaseballSpec_aggregate_totals logs = Inr [] \<and>
   BasketballSpec_aggregate_totals logs = Inr []"
proof -
  have "df_columns logs \<noteq> []" if "''sport'' \<in> set (df_columns logs)"
    using that by auto
  then show ?thesis
    by (simp add: FootballSpec_aggregate_totals_def SoccerSpec_aggregate_totals_def
        LacrosseSpec_aggregate_totals_def SportSpec_aggregate_totals_def
        BaseballSpec_aggregate_totals_def BasketballSpec_aggregate_totals_def no_sport_rows)
qed

text \<open>
  Without the hypothesis the three aggregations raise: the filter on \<open>sport\<close>
  comes before the test for an empty frame, and the frame without columns, which is
  the session's log before a game is created, has no such column.  The page keeps
  every frame without rows away from the aggregation.
\<close>

theorem aggregate_tolerates_empty_and_mismatched_counterexample:
  "df_rows empty_frame = [] \<and>
   FootballSpec_aggregate_totals empty_frame = Inl (KeyError ''sport'') \<and>
   SoccerSpec_aggregate_totals empty_frame = Inl (KeyError ''sport'') \<and>
   LacrosseSpec_aggregate_totals empty_frame = Inl (KeyError ''sport'')"
  by (simp add: empty_frame_def FootballSpec_aggregate_totals_def
      SoccerSpec_aggregate_totals_def LacrosseSpec_aggregate_totals_def)

theorem aggregate_tolerates_empty_and_mismatched_witness:
  "''sport'' \<in> set (df_columns new_game_logs) \<and> df_rows new_game_logs = [] \<and>
   FootballSpec_aggregate_totals new_game_logs = Inr [] \<and>
   SoccerSpec_aggregate_totals new_game_logs = Inr [] \<and>
   LacrosseSpec_aggregate_totals new_game_logs = Inr [] \<and>
   ''sport'' \<in> set (df_columns demo_sc_logs) \<and> df_rows demo_sc_logs \<noteq> [] \<and>
   FootballSpec_aggregate_totals demo_sc_logs = Inr [] \<and>
   LacrosseSpec_aggregate_totals demo_sc_logs = Inr [] \<and>
   ''sport'' \<in> set (df_columns demo_fb_logs) \<and>
   SoccerSpec_aggregate_totals demo_fb_logs = Inr [] \<and>
   BaseballSpec_aggregate_totals demo_fb_logs = Inr [] \<and>
   BasketballSpec_aggregate_totals demo_fb_logs = Inr [] \<and>
   BaseballSpec_aggregate_totals empty_frame = Inr []"
proof -
  have e: "df_rows new_game_logs = []" "''sport'' \<in> set (df_columns new_game_logs)"
    by (simp_all add: new_game_logs_def new_game_columns_def)
  have sc: "df_rows demo_sc_logs \<noteq> []" "''sport'' \<in> set (df_columns demo_sc_logs)"
    "\<forall>e\<in>set (df_rows demo_sc_logs). sport e \<noteq> ''Football''"
    "\<forall>e\<in>set (df_rows demo_sc_logs). sport e \<noteq> ''Lacrosse''"
    by (simp_all add: demo_sc_logs_def concat_rows_def new_game_logs_def new_game_columns_def
        demo_event_def)
  have fb: "\<forall>e\<in>set (df_rows demo_fb_logs). sport e \<noteq> ''Soccer''"
    "''sport'' \<in> set (df_columns demo_fb_logs)"
    by (simp_all add: demo_fb_logs_def demo_fb_rows_def concat_rows_def new_game_logs_def
        new_game_columns_def demo_event_def)
  show ?thesis
    using aggregate_tolerates_empty_and_mismatched [of new_game_logs]
      aggregate_tolerates_empty_and_mismatched [of demo_sc_logs]
      aggregate_tolerates_empty_and_mismatched [of demo_fb_logs]
      aggregate_tolerates_empty_and_mismatched [of empty_frame] e sc fb
    by blast
qed

section \<open>Missing columns\<close>

text \<open>
  C9.  The aggregation raises on a log that lacks a numeric column.  The first event
  of a Soccer game is a tackle: the row has no \<open>on_target\<close> key, the log
  gets no such column, \<open>df.get("on_target", 0)\<close> is the integer 0, and
  \<open>.fillna\<close> on it raises AttributeError where the missing values were to count
  as 0.  The Lacrosse aggregation reads its columns the same way and raises on a
  game whose first event is a ground ball.
\<close>

theorem soccer_first_tackle_raises:
  "SoccerSpec_build_form (read_roster_df demo_sheet) demo_sc_tackle = Inr [demo_tackle_row] \<and>
   ''on_target'' \<notin> set (df_columns (concat_rows new_game_logs [demo_tackle_row])) \<and>
   SoccerSpec_aggregate_totals (concat_rows new_game_logs [demo_tackle_row])
     = Inl AttributeError \<and>
   LacrosseSpec_aggregate_totals
     (concat_rows new_game_logs
        [demo_event ''Lacrosse'' ''#7 Ann Lee'' ''Ann'' ''Lee'' ''Ground Ball''])
     = Inl AttributeError"
  by code_simp

section \<open>The export text\<close>

lemma data_lines_filter:
  "data_lines fs jc rm inc rows
   = map (export_line fs jc rm inc) (filter (export_keeps fs jc rm inc) rows)"
  by (induction rows) (simp_all add: Let_def export_line_def export_keeps_def)

lemma digit_char_in:
  assumes "d < 10"
  shows "digit_char d \<in> set ''0123456789''"
  using assms unfolding digit_char_def by (intro nth_mem) simp

lemma str_nat_digits: "set (str_nat n) \<subseteq> set ''0123456789''"
proof (induction n rule: str_nat.induct)
  case (1 n)
  show ?case
  proof (cases "n < 10")
    case True
    then show ?thesis
      using digit_char_in [of n] by (subst str_nat.simps) simp
  next
    case False
    have "n mod 10 < 10" by simp
    then have "digit_char (n mod 10) \<in> set ''0123456789''" by (rule digit_char_in)
    with False "1.IH" show ?thesis
      by (subst str_nat.simps) simp
  qed
qed

lemma str_int_no_point: "CHR ''.'' \<notin> set (str_int i)"
proof -
  have "CHR ''.'' \<notin> set ''0123456789''" by simp
  then have "CHR ''.'' \<notin> set (str_nat n)" for n
    using str_nat_digits [of n] by blast
  then show ?thesis by (simp add: str_int_def)
qed

text \<open>An integer of at most 53 binary digits, and \<open>2 ^ 53\<close>, is its own float.\<close>

lemma bit_length_le:
  assumes "a < 2 ^ k"
  shows "bit_length a \<le> k"
  using assms
proof (induction k arbitrary: a)
  case 0
  then show ?case by (simp add: bit_length.simps)
next
  case (Suc k)
  show ?case
  proof (cases "a = 0")
    case True
    then show ?thesis by (simp add: bit_length.simps)
  next
    case False
    from Suc.prems have "a div 2 < 2 ^ k" by simp
    then have "bit_length (a div 2) \<le> k" by (rule Suc.IH)
    with False show ?thesis by (subst bit_length.simps) simp
  qed
qed

lemma bit_length_pow2: "bit_length (2 ^ k) = Suc k"
  by (induction k) (simp_all add: bit_length.simps [of "2 * _"] bit_length.simps [of "Suc 0"]
      bit_length.simps [of 0])

lemma float_of_int_rounded:
  assumes "bit_length (nat \<bar>i\<bar>) - 53 = e" and "e \<noteq> 0"
    and "round_half_even (of_nat (nat \<bar>i\<bar>) / 2 ^ e) * 2 ^ e = m" and "m < 2 ^ 1024"
  shows "float_of_int i = Inr (sgn i * m)"
  using assms by (simp add: float_of_int_def Let_def)

lemma float_of_int_exact:
  assumes "\<bar>i\<bar> \<le> 2 ^ 53"
  shows "float_of_int i = Inr i"
proof (cases "\<bar>i\<bar> = 2 ^ 53")
  case True
  then have a: "nat \<bar>i\<bar> = 2 ^ 53" by simp
  have e: "bit_length (nat \<bar>i\<bar>) - 53 = 1"
    by (simp only: a bit_length_pow2 diff_Suc_1 Suc_eq_plus1 add_diff_cancel_left')
  have r: "round_half_even (of_nat (nat \<bar>i\<bar>) / 2 ^ 1) * 2 ^ 1 = \<bar>i\<bar>"
    by (simp add: a True round_half_even_def Let_def)
  have "\<bar>i\<bar> < 2 ^ 1024" by (simp add: True)
  with e r have "float_of_int i = Inr (sgn i * \<bar>i\<bar>)"
    by (intro float_of_int_rounded [of i 1]) simp_all
  then show ?thesis by (simp add: mult_sgn_abs)
next
  case False
  with assms have "nat \<bar>i\<bar> < 2 ^ 53" by simp
  then have "bit_length (nat \<bar>i\<bar>) \<le> 53" by (rule bit_length_le)
  moreover have "\<bar>i\<bar> < 2 ^ 1024" using assms
    by (rule le_less_trans) simp
  moreover have "sgn i * \<bar>i\<bar> = i" by (simp add: mult_sgn_abs)
  ultimately show ?thesis
    by (simp add: float_of_int_def Let_def)
qed

lemma bit_length_between:
  assumes "2 ^ k \<le> a" and "a < 2 ^ Suc k"
  shows "bit_length a = Suc k"
  using assms
proof (induction k arbitrary: a)
  case 0
  then have "a = 1" by simp
  then show ?case by (simp add: bit_length.simps [of "Suc 0"] bit_length.simps [of 0])
next
  case (Suc k)
  from Suc.prems have "2 ^ k \<le> a div 2" "a div 2 < 2 ^ Suc k" by simp_all
  then have "bit_length (a div 2) = Suc k" by (rule Suc.IH)
  moreover from Suc.prems have "a \<noteq> 0" by auto
  ultimately show ?case by (subst bit_length.simps) simp
qed

text \<open>The first integer that is not a float goes to the even neighbour below it.\<close>

lemma float_of_int_above: "float_of_int (2 ^ 53 + 1) = Inr (2 ^ 53)"
proof -
  define i :: int where "i = 2 ^ 53 + 1"
  have a: "nat \<bar>i\<bar> = 2 ^ 53 + 1" by (simp add: i_def)
  have "bit_length (nat \<bar>i\<bar>) = Suc 53"
    unfolding a by (rule bit_length_between) simp_all
  then have e: "bit_length (nat \<bar>i\<bar>) - 53 = 1" by simp
  have fl: "\<lfloor>(2 ^ 53 + 1) / (2 :: rat)\<rfloor> = 2 ^ 52"
    by (rule floor_unique) simp_all
  have "round_half_even ((2 ^ 53 + 1) / 2) = 2 ^ 52"
    unfolding round_half_even_def Let_def fl by simp
  then have r: "round_half_even (of_nat (nat \<bar>i\<bar>) / 2 ^ 1) * 2 ^ 1 = 2 ^ 53"
    by (simp add: a)
  have "float_of_int i = Inr (sgn i * 2 ^ 53)"
    using e _ r by (rule float_of_int_rounded) simp_all
  then show ?thesis by (simp add: i_def)
qed

lemma coerce_int_no_point: "CHR ''.'' \<notin> set (coerce_str_no_nan fs (CInt i))"
  by (simp add: coerce_str_no_nan_def str_int_no_point split: sum.split)

text \<open>
  C8.  When the jersey column resolves to a column of the table,
  \<open>build_maxpreps_txt\<close> returns a text whose first line is the supplier id
  \<open>669ae75f-4563-494a-8c17-370aaa8539d4\<close> and which ends with a line feed.  After
  the header line it holds one line for each row that has a jersey value and at
  least one other value, in the order of the table, and no line for a row whose
  jersey value is empty or whose other values are all empty.  A number that is
  whole prints without a decimal point: a whole float as its integer, and an
  integer as the integer of its float, which is the integer itself up to
  \<open>2 ^ 53\<close> in size.
\<close>

theorem maxpreps_export_format:
  assumes "resolve_column_name_case_insensitive (t_columns df) jersey \<in> set (t_columns df)"
  shows "\<exists>jersey_col reverse_map included header data.
           jersey_col = resolve_column_name_case_insensitive (t_columns df) jersey \<and>
           reverse_map = reverse_map_of df field_map \<and>
           included = choose_fields_to_include df field_map \<and>
           header = join ''|'' (''Jersey'' # included) \<and>
           data = map (export_line float_str jersey_col reverse_map included)
                    (filter (export_keeps float_str jersey_col reverse_map included) (t_rows df)) \<and>
           build_maxpreps_lines float_str df field_map jersey
             = Inr (''669ae75f-4563-494a-8c17-370aaa8539d4'' # header # data) \<and>
           build_maxpreps_txt float_str df field_map jersey
             = Inr (''669ae75f-4563-494a-8c17-370aaa8539d4'' @ [CHR 0x0A] @
                    join [CHR 0x0A] (header # data) @ [CHR 0x0A]) \<and>
           CHR 0x0A \<notin> set ''669ae75f-4563-494a-8c17-370aaa8539d4'' \<and>
           coerce_str_no_nan float_str (CFloat (of_int n)) = str_int n \<and>
           CHR ''.'' \<notin> set (coerce_str_no_nan float_str (CFloat (of_int n))) \<and>
           (\<bar>n\<bar> \<le> 2 ^ 53 \<longrightarrow> coerce_str_no_nan float_str (CInt n) = str_int n) \<and>
           CHR ''.'' \<notin> set (coerce_str_no_nan float_str (CInt n))"
proof -
  have whole: "coerce_str_no_nan float_str (CFloat (of_int n)) = str_int n"
    by (simp add: coerce_str_no_nan_def)
  have small: "coerce_str_no_nan float_str (CInt n) = str_int n" if "\<bar>n\<bar> \<le> 2 ^ 53"
    using float_of_int_exact [OF that] by (simp add: coerce_str_no_nan_def)
  show ?thesis
    using assms whole small coerce_int_no_point [of float_str n]
    by (simp add: build_maxpreps_txt_def build_maxpreps_lines_def Let_def bind_err_def
        data_lines_filter supplier_id_def newline_def str_int_no_point)
qed

theorem maxpreps_export_format_witness:
  "resolve_column_name_case_insensitive (t_columns demo_totals) ''jersey'' = ''Jersey'' \<and>
   build_maxpreps_txt no_float_str demo_totals demo_field_map ''jersey''
     = Inr (''669ae75f-4563-494a-8c17-370aaa8539d4'' @ [CHR 0x0A] @
            ''Jersey|RushingNum|RushingYards'' @ [CHR 0x0A] @
            ''12|5|42'' @ [CHR 0x0A]) \<and>
   coerce_str_no_nan no_float_str (CFloat 42) = ''42'' \<and>
   coerce_str_no_nan no_float_str (CInt 42) = ''42'' \<and>
   coerce_str_no_nan no_float_str (CInt (2 ^ 53 + 1)) = ''9007199254740992'' \<and>
   coerce_str_no_nan no_float_str (CStr [CHR 0xA0, CHR ''7'', CHR 0x85]) = ''7'' \<and>
   lower [CHR 0xC9, CHR ''T'', CHR 0xD7] = [CHR 0xE9, CHR ''t'', CHR 0xD7]"
proof -
  have r: "resolve_column_name_case_insensitive (t_columns demo_totals) ''jersey'' = ''Jersey''"
    by code_simp
  then have h: "resolve_column_name_case_insensitive (t_columns demo_totals) ''jersey''
      \<in> set (t_columns demo_totals)"
    by (simp add: demo_totals_def)
  have hd: "join ''|'' (''Jersey'' # choose_fields_to_include demo_totals demo_field_map)
      = ''Jersey|RushingNum|RushingYards''"
    by code_simp
  have dt: "map (export_line no_float_str ''Jersey'' (reverse_map_of demo_totals demo_field_map)
                  (choose_fields_to_include demo_totals demo_field_map))
              (filter (export_keeps no_float_str ''Jersey''
                         (reverse_map_of demo_totals demo_field_map)
                         (choose_fields_to_include demo_totals demo_field_map))
                 (t_rows demo_totals))
            = [''12|5|42'']"
    by code_simp
  have s42: "str_int 42 = ''42''" by code_simp
  have "coerce_str_no_nan no_float_str (CInt (2 ^ 53 + 1)) = str_int (2 ^ 53)"
    by (simp only: coerce_str_no_nan_def cell.case float_of_int_above sum.case)
  also have "\<dots> = ''9007199254740992''"
    by (simp add: str_int_def str_nat.simps digit_char_def)
  finally have big:
    "coerce_str_no_nan no_float_str (CInt (2 ^ 53 + 1)) = ''9007199254740992''" .
  have nbsp: "coerce_str_no_nan no_float_str (CStr [CHR 0xA0, CHR ''7'', CHR 0x85]) = ''7''"
    by code_simp
  have low: "lower [CHR 0xC9, CHR ''T'', CHR 0xD7] = [CHR 0xE9, CHR ''t'', CHR 0xD7]"
    by code_simp
  have "build_maxpreps_txt no_float_str demo_totals demo_field_map ''jersey''
          = Inr (''669ae75f-4563-494a-8c17-370aaa8539d4'' @ [CHR 0x0A] @
                 join [CHR 0x0A] [''Jersey|RushingNum|RushingYards'', ''12|5|42''] @ [CHR 0x0A])"
    and "coerce_str_no_nan no_float_str (CFloat (of_int 42)) = str_int 42"
    and "\<bar>42 :: int\<bar> \<le> 2 ^ 53 \<longrightarrow> coerce_str_no_nan no_float_str (CInt 42) = str_int 42"
    using maxpreps_export_format [OF h, where float_str = no_float_str
        and field_map = demo_field_map and n = 42]
    by (simp_all add: r hd dt)
  with r s42 big nbsp low show ?thesis by simp
qed

end
